theory Spec2Isabelle
  imports Main "HOL-Library.Word" "HOL-Library.Sublist"
begin

unbundle bit_operations_syntax

section \<open>Data model of src/network/networkd-link.c\<close>

text \<open>
  The link state machine of networkd. Every C function of networkd-link.c is embedded as
  a HOL function over an explicit \<open>world\<close>: the Link object, the manager's handles, the
  files under /run, the calls made to collaborators, the log, the completion callbacks
  still owed, and the results the collaborators will return next.

  An \<open>assert\<close> that fails aborts the process: such a run has the value \<open>None\<close>.
  The enum LinkState has its six valid values only, so \<open>assert(state != _LINK_STATE_INVALID)\<close>
  and the \<open>assert(state)\<close> after \<open>link_state_to_string\<close> hold by typing; so do the
  asserts that a Link, a message or the manager pointer is not NULL.
\<close>

datatype LinkState =
    LINK_STATE_INITIALIZING
  | LINK_STATE_ENSLAVING
  | LINK_STATE_SETTING_ADDRESSES
  | LINK_STATE_SETTING_ROUTES
  | LINK_STATE_CONFIGURED
  | LINK_STATE_FAILED

text \<open>What a collaborator's accessor hands back: a negative errno, or the value read.\<close>

datatype 'a res = Failed int | Got 'a

text \<open>errno values and the constants of the Linux headers the file uses.\<close>

definition ENOENT :: int where "ENOENT = 2"
definition ENOMEM :: int where "ENOMEM = 12"
definition EEXIST :: int where "EEXIST = 17"
definition ENODEV :: int where "ENODEV = 19"
definition EINVAL :: int where "EINVAL = 22"

definition RTM_NEWLINK :: "16 word" where "RTM_NEWLINK = 16"
definition AF_INET :: nat where "AF_INET = 2"
definition RT_SCOPE_LINK :: nat where "RT_SCOPE_LINK = 253"
definition CACHE_INFO_INFINITY_LIFE_TIME :: "32 word" where
  "CACHE_INFO_INFINITY_LIFE_TIME = 0xFFFFFFFF"

definition IFF_UP :: "32 word" where "IFF_UP = 0x1"
definition IFF_BROADCAST :: "32 word" where "IFF_BROADCAST = 0x2"
definition IFF_DEBUG :: "32 word" where "IFF_DEBUG = 0x4"
definition IFF_NOARP :: "32 word" where "IFF_NOARP = 0x80"
definition IFF_PROMISC :: "32 word" where "IFF_PROMISC = 0x100"
definition IFF_MASTER :: "32 word" where "IFF_MASTER = 0x400"
definition IFF_SLAVE :: "32 word" where "IFF_SLAVE = 0x800"
definition IFF_MULTICAST :: "32 word" where "IFF_MULTICAST = 0x1000"
definition IFF_LOWER_UP :: "32 word" where "IFF_LOWER_UP = 0x10000"
definition IFF_DORMANT :: "32 word" where "IFF_DORMANT = 0x20000"

text \<open>
  An IPv4 address (struct in_addr) is the 32-bit number a.b.c.d, most significant byte
  first. The code keeps it in network byte order and only combines it bitwise, with
  \<open>htonl\<close> applied to the host-order constant; on the numbers that is the plain
  bitwise operation.
\<close>

type_synonym in_addr = "32 word"

record address =
  family :: nat
  in_addr :: in_addr
  prefixlen :: nat
  broadcast :: in_addr
  scope :: nat
  ifa_prefered :: "32 word"

record route =
  rt_family :: nat
  dst_addr :: in_addr
  dst_prefixlen :: nat
  rt_scope :: nat
  metrics :: "32 word"
  rt_in_addr :: in_addr

record netdev =
  netdev_name :: string

record sd_dhcp_lease =
  lease_address :: "in_addr res"
  lease_netmask :: "in_addr res"
  lease_router :: "in_addr res"
  lease_mtu :: "16 word res"
  lease_hostname :: "string option res"
  lease_dns :: "in_addr list res"

record sd_dhcp_client =
  client_lease :: "sd_dhcp_lease res"

record sd_ipv4ll =
  ll_address :: "in_addr res"
  ll_running :: bool

record network =
  static_addresses :: "address list"
  static_routes :: "route list"
  net_dhcp :: bool
  net_ipv4ll :: bool
  dhcp_mtu :: bool
  dhcp_dns :: bool
  dhcp_hostname :: bool
  dhcp_critical :: bool
  bridge :: "netdev option"
  bond :: "netdev option"
  vlans :: "netdev list"
  macvlans :: "netdev list"

text \<open>
  struct Link. The three counters are declared in networkd.h, which is not among the
  sources. The file uses them as C \<open>unsigned\<close> counters: it increments and decrements
  them, compares them with 0, asserts \<open>> 0\<close> before it decrements \<open>route_messages\<close>
  and \<open>addr_messages\<close>, and decrements \<open>enslaving\<close> under no assert. Section 3 of the
  spec gives them as non-negative integers. They are 32-bit words: both the increment
  and the decrement wrap around as \<open>unsigned\<close> does.
\<close>

record link =
  ifindex :: "64 word"
  ifname :: "string option"
  state_file :: string
  mac :: "8 word list"
  udev_device :: bool
  flags :: "32 word"
  network :: "network option"
  state :: LinkState
  addr_messages :: "32 word"
  route_messages :: "32 word"
  enslaving :: "32 word"
  dhcp_client :: "sd_dhcp_client option"
  dhcp_lease :: "sd_dhcp_lease option"
  original_mtu :: "16 word"
  ipv4ll :: "sd_ipv4ll option"

text \<open>
  The manager: whether its rtnl, event and bus handles are there, and the registry of
  links (\<open>manager->links\<close>, a hashmap keyed by the 64-bit ifindex).
\<close>

record manager =
  rtnl :: bool
  event :: bool
  bus :: bool
  links :: "64 word \<rightharpoonup> link"

record rtnl_message =
  msg_type :: "16 word res"
  msg_ifindex :: "int res"
  msg_ifname :: "string res"
  msg_mtu :: "16 word res"
  msg_address :: "8 word list res"
  msg_flags :: "32 word res"
  msg_errno :: int

datatype log_level = LOG_ERR | LOG_WARNING | LOG_INFO | LOG_DEBUG

text \<open>
  The completion callbacks of the file: \<open>enslave_handler\<close> is handed to
  \<open>netdev_enslave\<close>, the others to the rtnl adapter.
\<close>

datatype handler =
    H_route_handler
  | H_route_drop_handler
  | H_address_handler
  | H_address_update_handler
  | H_address_drop_handler
  | H_set_mtu_handler
  | H_link_up_handler
  | H_enslave_handler

text \<open>The calls the file makes to its collaborators (none of them is in the sources).\<close>

datatype call =
    Route_configure route
  | Route_drop route
  | Address_configure address
  | Address_update address
  | Address_drop address
  | Netdev_enslave netdev
  | Setlink_mtu "64 word" "32 word"
  | Setlink_flags "64 word" "32 word" "32 word"
  | Set_hostname string
  | Update_resolv_conf
  | Dhcp_lease_save string
  | Ipv4ll_new
  | Ipv4ll_set_address_seed
  | Ipv4ll_attach_event
  | Ipv4ll_set_index "64 word"
  | Ipv4ll_set_callback
  | Ipv4ll_set_mac "8 word list"
  | Ipv4ll_start
  | Ipv4ll_stop
  | Dhcp_client_new
  | Dhcp_client_attach_event
  | Dhcp_client_set_index "64 word"
  | Dhcp_client_set_callback
  | Dhcp_client_set_request_option nat
  | Dhcp_client_set_mac "8 word list"
  | Dhcp_client_start
  | Dhcp_client_stop

text \<open>
  Parts of the repository that the file uses and that are not among the sources, taken
  as parameters: the object \<open>address_new_dynamic\<close> and \<open>route_new_dynamic\<close> hand out,
  \<open>net_netmask_to_prefixlen\<close>, the name \<open>fopen_temporary\<close> gives its file, and what
  a \<open>struct in_addr\<close> on the stack holds before anything is written to it
  (dhcp_lease_lost ignores the results of the lease's accessors), and the clients that
  \<open>sd_ipv4ll_new\<close> and \<open>sd_dhcp_client_new\<close> create.
\<close>

record params =
  new_address :: address
  new_route :: route
  net_netmask_to_prefixlen :: "in_addr \<Rightarrow> nat"
  temp_path_of :: "string \<Rightarrow> string"
  uninitialised :: in_addr
  new_ipv4ll :: sd_ipv4ll
  new_dhcp_client :: sd_dhcp_client

record world =
  lnk :: link
  mgr :: manager
  cfg :: params
  fsys :: "string \<rightharpoonup> string"
  calls :: "(call \<times> int) list"
  logs :: "(log_level \<times> string) list"
  pending :: "handler list"
  results :: "int list"

section \<open>Collaborators\<close>

text \<open>
  A collaborator returns an int; the values it will return are the list \<open>results\<close> of
  the world, read in call order (0 once the list is used up). A theorem that holds for
  every list holds whatever the collaborators answer.
\<close>

definition next_result :: "world \<Rightarrow> int \<times> world" where
  "next_result w =
     (case results w of [] \<Rightarrow> (0, w) | r # rs \<Rightarrow> (r, w\<lparr>results := rs\<rparr>))"

text \<open>A call that completes at once: it is recorded with its result.\<close>

definition call_sync :: "call \<Rightarrow> world \<Rightarrow> int \<times> world" where
  "call_sync c w =
     (let (r, w1) = next_result w in (r, w1\<lparr>calls := calls w1 @ [(c, r)]\<rparr>))"

text \<open>
  A request with a completion callback (\<open>sd_rtnl_call_async\<close>, the \<open>address_*\<close> and
  \<open>route_*\<close> wrappers around it, and \<open>netdev_enslave\<close>): when the request is accepted
  (result not negative) the callback is owed one completion. \<open>pending\<close> holds the
  callbacks owed, the oldest first.
\<close>

definition call_async :: "call \<Rightarrow> handler \<Rightarrow> world \<Rightarrow> int \<times> world" where
  "call_async c h w =
     (let (r, w1) = next_result w
      in (r, w1\<lparr>calls := calls w1 @ [(c, r)],
                pending := (if 0 \<le> r then pending w1 @ [h] else pending w1)\<rparr>))"

definition log_link :: "log_level \<Rightarrow> string \<Rightarrow> world \<Rightarrow> world" where
  "log_link lv s w = w\<lparr>logs := logs w @ [(lv, s)]\<rparr>"

text \<open>Decimal digits of a number, as \<open>"%" PRIu64\<close> prints them.\<close>

fun dec :: "nat \<Rightarrow> string" where
  "dec n = (if n < 10 then [char_of (48 + n)] else dec (n div 10) @ [char_of (48 + n mod 10)])"

section \<open>The state file (link_save)\<close>

definition link_state_to_string :: "LinkState \<Rightarrow> string" where
  "link_state_to_string s =
     (case s of
        LINK_STATE_INITIALIZING \<Rightarrow> ''configuring''
      | LINK_STATE_ENSLAVING \<Rightarrow> ''configuring''
      | LINK_STATE_SETTING_ADDRESSES \<Rightarrow> ''configuring''
      | LINK_STATE_SETTING_ROUTES \<Rightarrow> ''configuring''
      | LINK_STATE_CONFIGURED \<Rightarrow> ''configured''
      | LINK_STATE_FAILED \<Rightarrow> ''failed'')"

text \<open>\<open>fopen_temporary\<close>: creates the empty temporary file next to the target.\<close>

definition fopen_temporary :: "string \<Rightarrow> world \<Rightarrow> int \<times> world" where
  "fopen_temporary path w =
     (let (r, w1) = next_result w
      in if r < 0 then (r, w1)
         else (r, w1\<lparr>fsys := (fsys w1)(temp_path_of (cfg w1) path \<mapsto> [])\<rparr>))"

definition fprintf :: "string \<Rightarrow> string \<Rightarrow> world \<Rightarrow> world" where
  "fprintf path s w =
     w\<lparr>fsys := (fsys w)(path \<mapsto> (case fsys w path of None \<Rightarrow> [] | Some c \<Rightarrow> c) @ s)\<rparr>"

text \<open>The label \<open>finish\<close>: log when r is negative, return r.\<close>

definition link_save_finish :: "int \<Rightarrow> world \<Rightarrow> int \<times> world" where
  "link_save_finish r w =
     (if r < 0 then (r, log_link LOG_ERR ''Failed to save link data'' w) else (r, w))"

text \<open>
  From \<open>fflush\<close> on: \<open>ferror(f)\<close> (not 0 when the stream has failed), then \<open>rename\<close>;
  when either fails r becomes \<open>-errno\<close> and both files are unlinked.
\<close>

definition link_save_commit :: "int \<Rightarrow> string \<Rightarrow> world \<Rightarrow> int \<times> world" where
  "link_save_commit r temp_path w =
     (let target = state_file (lnk w);
          (fe, w1) = next_result w;
          (rn, w2) = (if fe \<noteq> 0 then (0, w1) else next_result w1)
      in if fe \<noteq> 0 \<or> rn < 0
         then (let (e, w3) = next_result w2
               in link_save_finish (- e)
                    (w3\<lparr>fsys := (fsys w3)(target := None, temp_path := None)\<rparr>))
         else link_save_finish r
                (w2\<lparr>fsys := (fsys w2)(target := fsys w2 temp_path, temp_path := None)\<rparr>))"

definition link_save :: "world \<Rightarrow> int \<times> world" where
  "link_save w =
     (let st = link_state_to_string (state (lnk w));
          (r, w1) = fopen_temporary (state_file (lnk w)) w
      in if r < 0 then link_save_finish r w1
         else
           let temp_path = temp_path_of (cfg w1) (state_file (lnk w1));
               w2 = fprintf temp_path
                      (''# This is private data. Do not parse.\<newline>'' @ ''STATE='' @ st @ ''\<newline>'') w1
           in (case dhcp_lease (lnk w2) of
                 None \<Rightarrow> link_save_commit r temp_path w2
               | Some lease \<Rightarrow>
                   let (ra, w3) = next_result w2
                   in if ra < 0 then (- ENOMEM, w3)
                      else
                        let lease_file = ''/run/systemd/network/leases/'' @ dec (unat (ifindex (lnk w3)));
                            (rs, w4) = call_sync (Dhcp_lease_save lease_file) w3
                        in if rs < 0 then link_save_finish rs w4
                           else link_save_commit rs temp_path
                                  (fprintf temp_path (''DHCP_LEASE='' @ lease_file @ ''\<newline>'') w4)))"

section \<open>The registry (link_new, link_get)\<close>

definition pop_result :: "int list \<Rightarrow> int \<times> int list" where
  "pop_result rs = (case rs of [] \<Rightarrow> (0, []) | r # rs' \<Rightarrow> (r, rs'))"

text \<open>
  \<open>link_new\<close>. The list holds the results of \<open>new0\<close>, \<open>strdup\<close>, \<open>asprintf\<close> and
  \<open>hashmap_put\<close> (negative: the call fails). Modelled from the spec: \<open>hashmap_put\<close>
  is not among the sources; it refuses a key that is in the map already (-EEXIST) and
  otherwise inserts unless it fails itself.

  Once the link is allocated, every error return runs \<open>link_free\<close> on it
  (\<open>_cleanup_link_free_\<close>), and \<open>link_free\<close> removes from the map whatever entry stands
  under the link's ifindex.
\<close>

definition link_new :: "manager \<Rightarrow> rtnl_message \<Rightarrow> int list \<Rightarrow> int \<times> link option \<times> manager" where
  "link_new m message rs =
     (case msg_type message of
        Failed r \<Rightarrow> (r, None, m)
      | Got type \<Rightarrow>
          if type \<noteq> RTM_NEWLINK then (- EINVAL, None, m)
          else
            (case msg_ifindex message of
               Failed r \<Rightarrow> (r, None, m)
             | Got ifidx \<Rightarrow>
                 if ifidx \<le> 0 then (- EINVAL, None, m)
                 else
                   (case msg_ifname message of
                      Failed r \<Rightarrow> (r, None, m)
                    | Got name \<Rightarrow>
                        let (r0, rs0) = pop_result rs;
                            (r1, rs1) = pop_result rs0;
                            (r2, rs2) = pop_result rs1;
                            (r3, rs3) = pop_result rs2;
                            l = \<lparr>ifindex = word_of_int ifidx,
                                 ifname = Some name,
                                 state_file = ''/run/systemd/network/links/'' @ dec (unat (word_of_int ifidx :: 64 word)),
                                 mac = replicate 6 0,
                                 udev_device = False,
                                 flags = 0,
                                 network = None,
                                 state = LINK_STATE_INITIALIZING,
                                 addr_messages = 0,
                                 route_messages = 0,
                                 enslaving = 0,
                                 dhcp_client = None,
                                 dhcp_lease = None,
                                 original_mtu = 0,
                                 ipv4ll = None\<rparr>;
                            freed = m\<lparr>links := (links m)(ifindex l := None)\<rparr>
                        in if r0 < 0 then (- ENOMEM, None, m)
                           else if r1 < 0 then (- ENOMEM, None, freed)
                           else if r2 < 0 then (- ENOMEM, None, freed)
                           else if links m (ifindex l) \<noteq> None then (- EEXIST, None, freed)
                           else if r3 < 0 then (r3, None, freed)
                           else (0, Some l, m\<lparr>links := (links m)(ifindex l \<mapsto> l)\<rparr>))))"

definition link_get :: "manager \<Rightarrow> int \<Rightarrow> (int \<times> link option) option" where
  "link_get m ifidx =
     (if ifidx = 0 then None
      else (case links m (word_of_int ifidx) of
              None \<Rightarrow> Some (- ENODEV, None)
            | Some l \<Rightarrow> Some (0, Some l)))"

section \<open>Entering CONFIGURED and FAILED\<close>

definition link_enter_configured :: "world \<Rightarrow> (int \<times> world) option" where
  "link_enter_configured w =
     (if state (lnk w) \<noteq> LINK_STATE_SETTING_ROUTES then None
      else
        let w1 = log_link LOG_INFO ''link configured'' w;
            w2 = w1\<lparr>lnk := (lnk w1)\<lparr>state := LINK_STATE_CONFIGURED\<rparr>\<rparr>;
            (r, w3) = link_save w2
        in Some (0, w3))"

definition link_enter_failed :: "world \<Rightarrow> world" where
  "link_enter_failed w =
     (let w1 = log_link LOG_WARNING ''failed'' w;
          w2 = w1\<lparr>lnk := (lnk w1)\<lparr>state := LINK_STATE_FAILED\<rparr>\<rparr>;
          (r, w3) = link_save w2
      in w3)"

section \<open>Routes\<close>

definition route_handler :: "rtnl_message \<Rightarrow> world \<Rightarrow> (int \<times> world) option" where
  "route_handler m w =
     (if \<not> 0 < route_messages (lnk w) then None
      else if \<not> (state (lnk w) = LINK_STATE_SETTING_ADDRESSES \<or>
                  state (lnk w) = LINK_STATE_SETTING_ROUTES \<or>
                  state (lnk w) = LINK_STATE_FAILED) then None
      else
        let w1 = w\<lparr>lnk := (lnk w)\<lparr>route_messages := route_messages (lnk w) - 1\<rparr>\<rparr>
        in if state (lnk w1) = LINK_STATE_FAILED then Some (1, w1)
           else
             let r = msg_errno m;
                 w2 = (if r < 0 \<and> r \<noteq> - EEXIST
                       then log_link LOG_WARNING ''could not set route'' w1 else w1)
             in if route_messages (lnk w2) = 0 \<and> state (lnk w2) = LINK_STATE_SETTING_ROUTES
                then (case link_enter_configured (log_link LOG_DEBUG ''routes set'' w2) of
                        None \<Rightarrow> None
                      | Some (r', w3) \<Rightarrow> Some (1, w3))
                else Some (1, w2))"

definition ipv4ll_is_bound :: "sd_ipv4ll \<Rightarrow> bool" where
  "ipv4ll_is_bound ll = (case ll_address ll of Failed r \<Rightarrow> False | Got addr \<Rightarrow> True)"

text \<open>The loop over the static routes; \<open>Some r\<close> when the function returns r from inside.\<close>

fun set_routes_static :: "route list \<Rightarrow> world \<Rightarrow> int option \<times> world" where
  "set_routes_static [] w = (None, w)"
| "set_routes_static (rt # rts) w =
     (let (r, w1) = call_async (Route_configure rt) H_route_handler w
      in if r < 0
         then (Some r, link_enter_failed (log_link LOG_WARNING ''could not set routes'' w1))
         else set_routes_static rts
                (w1\<lparr>lnk := (lnk w1)\<lparr>route_messages := route_messages (lnk w1) + 1\<rparr>\<rparr>))"

text \<open>The block \<open>if (link->ipv4ll && !link->dhcp_lease)\<close> of link_enter_set_routes.\<close>

definition set_routes_ipv4ll :: "world \<Rightarrow> int option \<times> world" where
  "set_routes_ipv4ll w =
     (case ipv4ll (lnk w) of
        None \<Rightarrow> (None, w)
      | Some ll \<Rightarrow>
          if dhcp_lease (lnk w) \<noteq> None then (None, w)
          else
            (case ll_address ll of
               Failed r \<Rightarrow>
                 if r \<noteq> - ENOENT
                 then (Some r, log_link LOG_WARNING ''IPV4LL error: no address'' w)
                 else (None, w)
             | Got addr \<Rightarrow>
                 let (r, w1) = next_result w
                 in if r < 0 then (Some r, log_link LOG_ERR ''Could not allocate route'' w1)
                    else
                      let rt = (new_route (cfg w1))
                                 \<lparr>rt_family := AF_INET, rt_scope := RT_SCOPE_LINK, metrics := 99\<rparr>;
                          (r', w2) = call_async (Route_configure rt) H_route_handler w1
                      in if r' < 0
                         then (Some r', link_enter_failed
                                          (log_link LOG_WARNING ''could not set routes'' w2))
                         else (None, w2\<lparr>lnk := (lnk w2)
                                  \<lparr>route_messages := route_messages (lnk w2) + 1\<rparr>\<rparr>)))"

text \<open>The block \<open>if (link->dhcp_lease)\<close> of link_enter_set_routes.\<close>

definition set_routes_dhcp :: "world \<Rightarrow> int option \<times> world" where
  "set_routes_dhcp w =
     (case dhcp_lease (lnk w) of
        None \<Rightarrow> (None, w)
      | Some lease \<Rightarrow>
          (case lease_router lease of
             Failed r \<Rightarrow> (Some r, log_link LOG_WARNING ''DHCP error: no router'' w)
           | Got gateway \<Rightarrow>
               let (r1, w1) = next_result w
               in if r1 < 0 then (Some r1, log_link LOG_ERR ''Could not allocate route'' w1)
                  else
                    let (r2, w2) = next_result w1
                    in if r2 < 0 then (Some r2, log_link LOG_ERR ''Could not allocate route'' w2)
                       else
                         let route_gw = (new_route (cfg w2))
                                \<lparr>rt_family := AF_INET, dst_addr := gateway,
                                 dst_prefixlen := 32, rt_scope := RT_SCOPE_LINK\<rparr>;
                             (r3, w3) = call_async (Route_configure route_gw) H_route_handler w2
                         in if r3 < 0
                            then (Some r3, log_link LOG_WARNING ''could not set host route'' w3)
                            else
                              let w4 = w3\<lparr>lnk := (lnk w3)
                                          \<lparr>route_messages := route_messages (lnk w3) + 1\<rparr>\<rparr>;
                                  route = (new_route (cfg w4))
                                     \<lparr>rt_family := AF_INET, rt_in_addr := gateway\<rparr>;
                                  (r4, w5) = call_async (Route_configure route) H_route_handler w4
                              in if r4 < 0
                                 then (Some r4, link_enter_failed
                                                  (log_link LOG_WARNING ''could not set routes'' w5))
                                 else (None, w5\<lparr>lnk := (lnk w5)
                                          \<lparr>route_messages := route_messages (lnk w5) + 1\<rparr>\<rparr>)))"

definition link_enter_set_routes :: "world \<Rightarrow> (int \<times> world) option" where
  "link_enter_set_routes w =
     (case network (lnk w) of
        None \<Rightarrow> None
      | Some net \<Rightarrow>
          if state (lnk w) \<noteq> LINK_STATE_SETTING_ADDRESSES then None
          else
            let w1 = w\<lparr>lnk := (lnk w)\<lparr>state := LINK_STATE_SETTING_ROUTES\<rparr>\<rparr>
            in if static_routes net = [] \<and> dhcp_lease (lnk w1) = None \<and>
                  (case ipv4ll (lnk w1) of None \<Rightarrow> True | Some ll \<Rightarrow> ipv4ll_is_bound ll = False)
               then link_enter_configured w1
               else
                 (case set_routes_static (static_routes net)
                         (log_link LOG_DEBUG ''setting routes'' w1) of
                    (Some r, w2) \<Rightarrow> Some (r, w2)
                  | (None, w2) \<Rightarrow>
                      (case set_routes_ipv4ll w2 of
                         (Some r, w3) \<Rightarrow> Some (r, w3)
                       | (None, w3) \<Rightarrow>
                           (case set_routes_dhcp w3 of
                              (Some r, w4) \<Rightarrow> Some (r, w4)
                            | (None, w4) \<Rightarrow> Some (0, w4)))))"

text \<open>
  The handlers of drop and update requests: they assert \<open>link->ifname\<close>, log an errno
  other than ENOENT and change nothing.
\<close>

definition route_drop_handler :: "rtnl_message \<Rightarrow> world \<Rightarrow> (int \<times> world) option" where
  "route_drop_handler m w =
     (if ifname (lnk w) = None then None
      else if state (lnk w) = LINK_STATE_FAILED then Some (1, w)
      else if msg_errno m < 0 \<and> msg_errno m \<noteq> - ENOENT
      then Some (0, log_link LOG_WARNING ''could not drop route'' w)
      else Some (0, w))"

section \<open>Addresses\<close>

definition address_handler :: "rtnl_message \<Rightarrow> world \<Rightarrow> (int \<times> world) option" where
  "address_handler m w =
     (if ifname (lnk w) = None then None
      else if \<not> 0 < addr_messages (lnk w) then None
      else if \<not> (state (lnk w) = LINK_STATE_SETTING_ADDRESSES \<or>
                  state (lnk w) = LINK_STATE_FAILED) then None
      else
        let w1 = w\<lparr>lnk := (lnk w)\<lparr>addr_messages := addr_messages (lnk w) - 1\<rparr>\<rparr>
        in if state (lnk w1) = LINK_STATE_FAILED then Some (1, w1)
           else
             let r = msg_errno m;
                 w2 = (if r < 0 \<and> r \<noteq> - EEXIST
                       then log_link LOG_WARNING ''could not set address'' w1 else w1)
             in if addr_messages (lnk w2) = 0
                then (case link_enter_set_routes (log_link LOG_DEBUG ''addresses set'' w2) of
                        None \<Rightarrow> None
                      | Some (r', w3) \<Rightarrow> Some (1, w3))
                else Some (1, w2))"

fun set_addresses_static :: "address list \<Rightarrow> world \<Rightarrow> int option \<times> world" where
  "set_addresses_static [] w = (None, w)"
| "set_addresses_static (ad # ads) w =
     (let (r, w1) = call_async (Address_configure ad) H_address_handler w
      in if r < 0
         then (Some r, link_enter_failed (log_link LOG_WARNING ''could not set addresses'' w1))
         else set_addresses_static ads
                (w1\<lparr>lnk := (lnk w1)\<lparr>addr_messages := addr_messages (lnk w1) + 1\<rparr>\<rparr>))"

text \<open>
  The block \<open>if (link->ipv4ll && !link->dhcp_lease)\<close> of link_enter_set_addresses. The
  broadcast address is \<open>addr | htonl(0xffffffff >> prefixlen)\<close> with prefixlen 16.
\<close>

definition set_addresses_ipv4ll :: "world \<Rightarrow> int option \<times> world" where
  "set_addresses_ipv4ll w =
     (case ipv4ll (lnk w) of
        None \<Rightarrow> (None, w)
      | Some ll \<Rightarrow>
          if dhcp_lease (lnk w) \<noteq> None then (None, w)
          else
            (case ll_address ll of
               Failed r \<Rightarrow>
                 if r \<noteq> - ENOENT
                 then (Some r, log_link LOG_WARNING ''IPV4LL error: no address'' w)
                 else (None, w)
             | Got addr \<Rightarrow>
                 let (r, w1) = next_result w
                 in if r < 0 then (Some r, log_link LOG_ERR ''Could not allocate address'' w1)
                    else
                      let ll_addr = (new_address (cfg w1))
                             \<lparr>family := AF_INET, in_addr := addr, prefixlen := 16,
                              broadcast := addr OR drop_bit 16 (0xffffffff :: 32 word),
                              scope := RT_SCOPE_LINK\<rparr>;
                          (r', w2) = call_async (Address_configure ll_addr) H_address_handler w1
                      in if r' < 0
                         then (Some r', link_enter_failed
                                          (log_link LOG_WARNING ''could not set addresses'' w2))
                         else (None, w2\<lparr>lnk := (lnk w2)
                                  \<lparr>addr_messages := addr_messages (lnk w2) + 1\<rparr>\<rparr>)))"

text \<open>The block \<open>if (link->dhcp_lease)\<close> of link_enter_set_addresses.\<close>

definition set_addresses_dhcp :: "world \<Rightarrow> int option \<times> world" where
  "set_addresses_dhcp w =
     (case dhcp_lease (lnk w) of
        None \<Rightarrow> (None, w)
      | Some lease \<Rightarrow>
          (case lease_address lease of
             Failed r \<Rightarrow> (Some r, log_link LOG_WARNING ''DHCP error: no address'' w)
           | Got addr \<Rightarrow>
               (case lease_netmask lease of
                  Failed r \<Rightarrow> (Some r, log_link LOG_WARNING ''DHCP error: no netmask'' w)
                | Got netmask \<Rightarrow>
                    let plen = net_netmask_to_prefixlen (cfg w) netmask;
                        (r1, w1) = next_result w
                    in if r1 < 0
                       then (Some r1, log_link LOG_ERR ''Could not allocate address'' w1)
                       else
                         let addr' = (new_address (cfg w1))
                                \<lparr>family := AF_INET, in_addr := addr, prefixlen := plen,
                                 broadcast := addr OR NOT netmask\<rparr>;
                             (r2, w2) = call_async (Address_configure addr') H_address_handler w1
                         in if r2 < 0
                            then (Some r2, link_enter_failed
                                             (log_link LOG_WARNING ''could not set addresses'' w2))
                            else (None, w2\<lparr>lnk := (lnk w2)
                                     \<lparr>addr_messages := addr_messages (lnk w2) + 1\<rparr>\<rparr>))))"

definition link_enter_set_addresses :: "world \<Rightarrow> (int \<times> world) option" where
  "link_enter_set_addresses w =
     (case network (lnk w) of
        None \<Rightarrow> None
      | Some net \<Rightarrow>
          let w1 = w\<lparr>lnk := (lnk w)\<lparr>state := LINK_STATE_SETTING_ADDRESSES\<rparr>\<rparr>
          in if static_addresses net = [] \<and> dhcp_lease (lnk w1) = None \<and>
                (case ipv4ll (lnk w1) of None \<Rightarrow> True | Some ll \<Rightarrow> ipv4ll_is_bound ll = False)
             then link_enter_set_routes w1
             else
               (case set_addresses_static (static_addresses net)
                       (log_link LOG_DEBUG ''setting addresses'' w1) of
                  (Some r, w2) \<Rightarrow> Some (r, w2)
                | (None, w2) \<Rightarrow>
                    (case set_addresses_ipv4ll w2 of
                       (Some r, w3) \<Rightarrow> Some (r, w3)
                     | (None, w3) \<Rightarrow>
                         (case set_addresses_dhcp w3 of
                            (Some r, w4) \<Rightarrow> Some (r, w4)
                          | (None, w4) \<Rightarrow> Some (0, w4)))))"

definition address_update_handler :: "rtnl_message \<Rightarrow> world \<Rightarrow> (int \<times> world) option" where
  "address_update_handler m w =
     (if ifname (lnk w) = None then None
      else if state (lnk w) = LINK_STATE_FAILED then Some (1, w)
      else if msg_errno m < 0 \<and> msg_errno m \<noteq> - ENOENT
      then Some (0, log_link LOG_WARNING ''could not update address'' w)
      else Some (0, w))"

definition address_drop_handler :: "rtnl_message \<Rightarrow> world \<Rightarrow> (int \<times> world) option" where
  "address_drop_handler m w =
     (if ifname (lnk w) = None then None
      else if state (lnk w) = LINK_STATE_FAILED then Some (1, w)
      else if msg_errno m < 0 \<and> msg_errno m \<noteq> - ENOENT
      then Some (0, log_link LOG_WARNING ''could not drop address'' w)
      else Some (0, w))"

section \<open>Hostname and MTU\<close>

definition set_hostname :: "string option \<Rightarrow> world \<Rightarrow> (int \<times> world) option" where
  "set_hostname hostname w =
     (case hostname of
        None \<Rightarrow> None
      | Some h \<Rightarrow>
          let w0 = log_link LOG_DEBUG ''Setting transient hostname'' w
          in if \<not> bus (mgr w0)
             then Some (0, log_link LOG_INFO
                             ''Not connected to system bus, ignoring transient hostname.'' w0)
             else
               let (r1, w1) = next_result w0
               in if r1 < 0 then Some (r1, w1)
                  else
                    let (r2, w2) = next_result w1
                    in if r2 < 0 then Some (r2, w2)
                       else
                         let (r3, w3) = call_sync (Set_hostname h) w2
                         in if r3 < 0
                            then Some (r3, log_link LOG_ERR ''Could not set transient hostname'' w3)
                            else Some (r3, w3))"

definition set_mtu_handler :: "rtnl_message \<Rightarrow> world \<Rightarrow> (int \<times> world) option" where
  "set_mtu_handler m w =
     (if ifname (lnk w) = None then None
      else if state (lnk w) = LINK_STATE_FAILED then Some (1, w)
      else if msg_errno m < 0
      then Some (1, log_link LOG_WARNING ''could not set MTU'' w)
      else Some (1, w))"

definition link_set_mtu :: "32 word \<Rightarrow> world \<Rightarrow> (int \<times> world) option" where
  "link_set_mtu mtu w =
     (if \<not> rtnl (mgr w) then None
      else
        let w0 = log_link LOG_DEBUG ''setting MTU'' w;
            (r1, w1) = next_result w0
        in if r1 < 0
           then Some (r1, log_link LOG_ERR ''Could not allocate RTM_SETLINK message'' w1)
           else
             let (r2, w2) = next_result w1
             in if r2 < 0 then Some (r2, log_link LOG_ERR ''Could not append MTU'' w2)
                else
                  let (r3, w3) = call_async (Setlink_mtu (ifindex (lnk w2)) mtu) H_set_mtu_handler w2
                  in if r3 < 0
                     then Some (r3, log_link LOG_ERR ''Could not send rtnetlink message'' w3)
                     else Some (0, w3))"

section \<open>DHCP\<close>

definition got_or :: "'a \<Rightarrow> 'a res \<Rightarrow> 'a" where
  "got_or d x = (case x of Failed r \<Rightarrow> d | Got v \<Rightarrow> v)"

text \<open>The first block of dhcp_lease_lost: drop the host route, the default route and the address.\<close>

definition dhcp_lease_lost_drop :: "sd_dhcp_lease \<Rightarrow> world \<Rightarrow> world" where
  "dhcp_lease_lost_drop lease w =
     (let (r, w1) = next_result w
      in if r < 0 then w1
         else
           let addr = got_or (uninitialised (cfg w1)) (lease_address lease);
               netmask = got_or (uninitialised (cfg w1)) (lease_netmask lease);
               gateway = got_or (uninitialised (cfg w1)) (lease_router lease);
               plen = net_netmask_to_prefixlen (cfg w1) netmask;
               (r1, w2) = next_result w1;
               w3 = (if r1 < 0 then w2
                     else snd (call_async
                            (Route_drop ((new_route (cfg w2))
                               \<lparr>rt_family := AF_INET, dst_addr := gateway,
                                dst_prefixlen := 32, rt_scope := RT_SCOPE_LINK\<rparr>))
                            H_route_drop_handler w2));
               (r2, w4) = next_result w3;
               w5 = (if r2 < 0 then w4
                     else snd (call_async
                            (Route_drop ((new_route (cfg w4))
                               \<lparr>rt_family := AF_INET, rt_in_addr := gateway\<rparr>))
                            H_route_drop_handler w4))
           in snd (call_async
                     (Address_drop ((new_address (cfg w5))
                        \<lparr>family := AF_INET, in_addr := addr, prefixlen := plen\<rparr>))
                     H_address_drop_handler w5))"

text \<open>
  The block \<open>if (link->network->dhcp_mtu)\<close> of dhcp_lease_lost: the original MTU is set
  again when the lease carried another one. \<open>Some r\<close> when the function returns r here.
\<close>

definition lease_lost_mtu :: "network \<Rightarrow> sd_dhcp_lease \<Rightarrow> world \<Rightarrow> (int option \<times> world) option" where
  "lease_lost_mtu net lease w =
     (if dhcp_mtu net
      then (case lease_mtu lease of
              Failed r \<Rightarrow> Some (None, w)
            | Got mtu \<Rightarrow>
                if original_mtu (lnk w) \<noteq> mtu
                then (case link_set_mtu (ucast (original_mtu (lnk w))) w of
                        None \<Rightarrow> None
                      | Some (r, w1) \<Rightarrow>
                          if r < 0
                          then Some (Some r, link_enter_failed
                                 (log_link LOG_WARNING ''DHCP error: could not reset MTU'' w1))
                          else Some (None, w1))
                else Some (None, w))
      else Some (None, w))"

text \<open>The block \<open>if (link->network->dhcp_hostname)\<close> of dhcp_lease_lost.\<close>

definition lease_lost_hostname :: "network \<Rightarrow> sd_dhcp_lease \<Rightarrow> world \<Rightarrow> world option" where
  "lease_lost_hostname net lease w =
     (if dhcp_hostname net
      then (case lease_hostname lease of
              Failed r \<Rightarrow> Some w
            | Got None \<Rightarrow> Some w
            | Got (Some h) \<Rightarrow>
                (case set_hostname (Some []) w of
                   None \<Rightarrow> None
                 | Some (r, w1) \<Rightarrow>
                     if r < 0
                     then Some (log_link LOG_ERR ''Failed to reset transient hostname'' w1)
                     else Some w1))
      else Some w)"

definition dhcp_lease_lost :: "world \<Rightarrow> (int \<times> world) option" where
  "dhcp_lease_lost w =
     (case dhcp_lease (lnk w) of
        None \<Rightarrow> None
      | Some lease \<Rightarrow>
          (case network (lnk w) of
             None \<Rightarrow> None
           | Some net \<Rightarrow>
               (case lease_lost_mtu net lease
                       (dhcp_lease_lost_drop lease
                          (log_link LOG_WARNING ''DHCP lease lost'' w)) of
                  None \<Rightarrow> None
                | Some (Some r, w2) \<Rightarrow> Some (r, w2)
                | Some (None, w2) \<Rightarrow>
                    (case lease_lost_hostname net lease w2 of
                       None \<Rightarrow> None
                     | Some w3 \<Rightarrow> Some (0, w3\<lparr>lnk := (lnk w3)\<lparr>dhcp_lease := None\<rparr>\<rparr>)))))"

text \<open>The three optional steps of dhcp_lease_acquired: resolv.conf, MTU, hostname.\<close>

definition lease_acquired_dns :: "network \<Rightarrow> sd_dhcp_lease \<Rightarrow> world \<Rightarrow> world" where
  "lease_acquired_dns net lease w =
     (if dhcp_dns net
      then (case lease_dns lease of
              Failed r \<Rightarrow> w
            | Got nameservers \<Rightarrow>
                let (r, w1) = call_sync Update_resolv_conf w
                in if r < 0 then log_link LOG_ERR ''Failed to update resolv.conf'' w1 else w1)
      else w)"

definition lease_acquired_mtu :: "network \<Rightarrow> sd_dhcp_lease \<Rightarrow> world \<Rightarrow> world option" where
  "lease_acquired_mtu net lease w =
     (if dhcp_mtu net
      then (case lease_mtu lease of
              Failed r \<Rightarrow> Some w
            | Got mtu \<Rightarrow>
                (case link_set_mtu (ucast mtu) w of
                   None \<Rightarrow> None
                 | Some (r, w1) \<Rightarrow>
                     if r < 0 then Some (log_link LOG_ERR ''Failed to set MTU'' w1) else Some w1))
      else Some w)"

definition lease_acquired_hostname :: "network \<Rightarrow> sd_dhcp_lease \<Rightarrow> world \<Rightarrow> world option" where
  "lease_acquired_hostname net lease w =
     (if dhcp_hostname net
      then (case lease_hostname lease of
              Failed r \<Rightarrow> Some w
            | Got hostname \<Rightarrow>
                (case set_hostname hostname w of
                   None \<Rightarrow> None
                 | Some (r, w1) \<Rightarrow>
                     if r < 0 then Some (log_link LOG_ERR ''Failed to set transient hostname'' w1)
                     else Some w1))
      else Some w)"

definition dhcp_lease_acquired :: "sd_dhcp_client option \<Rightarrow> world \<Rightarrow> (int \<times> world) option" where
  "dhcp_lease_acquired client w =
     (case client of
        None \<Rightarrow> None
      | Some c \<Rightarrow>
          (case client_lease c of
             Failed r \<Rightarrow> Some (r, log_link LOG_WARNING ''DHCP error: no lease'' w)
           | Got lease \<Rightarrow>
               (case lease_address lease of
                  Failed r \<Rightarrow> Some (r, log_link LOG_WARNING ''DHCP error: no address'' w)
                | Got addr \<Rightarrow>
                    (case lease_netmask lease of
                       Failed r \<Rightarrow> Some (r, log_link LOG_WARNING ''DHCP error: no netmask'' w)
                     | Got netmask \<Rightarrow>
                         (case lease_router lease of
                            Failed r \<Rightarrow> Some (r, log_link LOG_WARNING ''DHCP error: no router'' w)
                          | Got gateway \<Rightarrow>
                              let w1 = log_link LOG_INFO ''DHCPv4 address'' w;
                                  w2 = w1\<lparr>lnk := (lnk w1)\<lparr>dhcp_lease := Some lease\<rparr>\<rparr>
                              in (case network (lnk w2) of
                                    None \<Rightarrow> None
                                  | Some net \<Rightarrow>
                                      (case lease_acquired_mtu net lease
                                              (lease_acquired_dns net lease w2) of
                                         None \<Rightarrow> None
                                       | Some w3 \<Rightarrow>
                                           (case lease_acquired_hostname net lease w3 of
                                              None \<Rightarrow> None
                                            | Some w4 \<Rightarrow>
                                                (case link_enter_set_addresses w4 of
                                                   None \<Rightarrow> None
                                                 | Some (r, w5) \<Rightarrow> Some (0, w5))))))))))"

section \<open>IPv4LL\<close>

text \<open>
  A NULL handle given to a function of the IPv4LL or DHCP client (neither is among the
  sources) is not followed further: the run has the value \<open>None\<close>.
\<close>

definition ipv4ll_address_update :: "bool \<Rightarrow> world \<Rightarrow> (int \<times> world) option" where
  "ipv4ll_address_update deprecate w =
     (case ipv4ll (lnk w) of
        None \<Rightarrow> None
      | Some ll \<Rightarrow>
          (case ll_address ll of
             Failed r \<Rightarrow> Some (0, w)
           | Got addr \<Rightarrow>
               let w0 = log_link LOG_DEBUG
                          (if deprecate then ''IPv4 link-local deprecate''
                           else ''IPv4 link-local approve'') w;
                   (r, w1) = next_result w0
               in if r < 0 then Some (r, log_link LOG_ERR ''Could not allocate address'' w1)
                  else
                    let addr' = (new_address (cfg w1))
                           \<lparr>family := AF_INET, in_addr := addr, prefixlen := 16,
                            scope := RT_SCOPE_LINK,
                            ifa_prefered := (if deprecate then 0 else CACHE_INFO_INFINITY_LIFE_TIME),
                            broadcast := addr OR drop_bit 16 (0xffffffff :: 32 word)\<rparr>
                    in Some (0, snd (call_async (Address_update addr')
                                       H_address_update_handler w1))))"

definition ipv4ll_address_lost :: "world \<Rightarrow> (int \<times> world) option" where
  "ipv4ll_address_lost w =
     (case ipv4ll (lnk w) of
        None \<Rightarrow> None
      | Some ll \<Rightarrow>
          (case ll_address ll of
             Failed r \<Rightarrow> Some (0, w)
           | Got addr \<Rightarrow>
               let w0 = log_link LOG_DEBUG ''IPv4 link-local release'' w;
                   (r, w1) = next_result w0
               in if r < 0 then Some (r, log_link LOG_ERR ''Could not allocate address'' w1)
                  else
                    let addr' = (new_address (cfg w1))
                           \<lparr>family := AF_INET, in_addr := addr, prefixlen := 16,
                            scope := RT_SCOPE_LINK\<rparr>;
                        w2 = snd (call_async (Address_drop addr') H_address_drop_handler w1);
                        (r', w3) = next_result w2
                    in if r' < 0 then Some (r', log_link LOG_ERR ''Could not allocate route'' w3)
                       else
                         let rt = (new_route (cfg w3))
                                \<lparr>rt_family := AF_INET, rt_scope := RT_SCOPE_LINK, metrics := 99\<rparr>
                         in Some (0, snd (call_async (Route_drop rt) H_route_drop_handler w3))))"

definition ipv4ll_address_claimed :: "sd_ipv4ll option \<Rightarrow> world \<Rightarrow> (int \<times> world) option" where
  "ipv4ll_address_claimed ll w =
     (case ll of
        None \<Rightarrow> None
      | Some l \<Rightarrow>
          (case ll_address l of
             Failed r \<Rightarrow> Some (r, w)
           | Got addr \<Rightarrow>
               (case link_enter_set_addresses (log_link LOG_INFO ''IPv4 link-local address'' w) of
                  None \<Rightarrow> None
                | Some (r, w1) \<Rightarrow> Some (0, w1))))"

text \<open>
  The events of the IPv4LL and DHCP clients are closed tagged unions (spec, section 9);
  every other number, negative errno or not, is the last constructor.
\<close>

datatype ipv4ll_event =
    IPV4LL_EVENT_STOP
  | IPV4LL_EVENT_CONFLICT
  | IPV4LL_EVENT_BIND
  | IPV4LL_EVENT_OTHER int

datatype dhcp_event =
    DHCP_EVENT_NO_LEASE
  | DHCP_EVENT_EXPIRED
  | DHCP_EVENT_STOP
  | DHCP_EVENT_IP_CHANGE
  | DHCP_EVENT_IP_ACQUIRE
  | DHCP_EVENT_OTHER int

definition ipv4ll_handler :: "ipv4ll_event \<Rightarrow> world \<Rightarrow> world option" where
  "ipv4ll_handler ev w =
     (if network (lnk w) = None then None
      else
        (case ev of
           IPV4LL_EVENT_STOP \<Rightarrow>
             (case ipv4ll_address_lost w of
                None \<Rightarrow> None
              | Some (r, w1) \<Rightarrow> if r < 0 then Some (link_enter_failed w1) else Some w1)
         | IPV4LL_EVENT_CONFLICT \<Rightarrow>
             (case ipv4ll_address_lost w of
                None \<Rightarrow> None
              | Some (r, w1) \<Rightarrow> if r < 0 then Some (link_enter_failed w1) else Some w1)
         | IPV4LL_EVENT_BIND \<Rightarrow>
             (case ipv4ll_address_claimed (ipv4ll (lnk w)) w of
                None \<Rightarrow> None
              | Some (r, w1) \<Rightarrow> if r < 0 then Some (link_enter_failed w1) else Some w1)
         | IPV4LL_EVENT_OTHER n \<Rightarrow>
             (if n < 0 then Some (log_link LOG_WARNING ''IPv4 link-local error'' w)
              else Some (log_link LOG_WARNING ''IPv4 link-local unknown event'' w))))"

section \<open>The DHCP event handler\<close>

text \<open>
  The cases EXPIRED, STOP and IP_CHANGE of the switch share one body. The variable r is
  0 at first and keeps the last result assigned to it.
\<close>

definition dhcp_handler_lost :: "dhcp_event \<Rightarrow> network \<Rightarrow> world \<Rightarrow> world option" where
  "dhcp_handler_lost ev net w =
     (if dhcp_critical net
      then Some (log_link LOG_ERR
             ''DHCPv4 connection considered system critical, ignoring request to reconfigure it.'' w)
      else
        (case (if dhcp_lease (lnk w) \<noteq> None then dhcp_lease_lost w else Some (0, w)) of
           None \<Rightarrow> None
         | Some (r1, w1) \<Rightarrow>
             if r1 < 0 then Some (link_enter_failed w1)
             else
               (case (if ev = DHCP_EVENT_IP_CHANGE
                      then dhcp_lease_acquired (dhcp_client (lnk w1)) w1 else Some (r1, w1)) of
                  None \<Rightarrow> None
                | Some (r2, w2) \<Rightarrow>
                    if r2 < 0 then Some (link_enter_failed w2)
                    else if ev = DHCP_EVENT_EXPIRED \<and> net_ipv4ll net
                    then
                      (case ipv4ll (lnk w2) of
                         None \<Rightarrow> None
                       | Some ll \<Rightarrow>
                           (case (if \<not> ll_running ll then Some (call_sync Ipv4ll_start w2)
                                  else if ipv4ll_is_bound ll then ipv4ll_address_update False w2
                                  else Some (r2, w2)) of
                              None \<Rightarrow> None
                            | Some (r3, w3) \<Rightarrow>
                                if r3 < 0 then Some (link_enter_failed w3) else Some w3))
                    else Some w2)))"

definition dhcp_handler :: "dhcp_event \<Rightarrow> world \<Rightarrow> world option" where
  "dhcp_handler ev w =
     (case network (lnk w) of
        None \<Rightarrow> None
      | Some net \<Rightarrow>
          if state (lnk w) = LINK_STATE_FAILED then Some w
          else
            (case ev of
               DHCP_EVENT_NO_LEASE \<Rightarrow> Some (log_link LOG_DEBUG ''IP address in use.'' w)
             | DHCP_EVENT_EXPIRED \<Rightarrow> dhcp_handler_lost ev net w
             | DHCP_EVENT_STOP \<Rightarrow> dhcp_handler_lost ev net w
             | DHCP_EVENT_IP_CHANGE \<Rightarrow> dhcp_handler_lost ev net w
             | DHCP_EVENT_IP_ACQUIRE \<Rightarrow>
                 (case dhcp_lease_acquired (dhcp_client (lnk w)) w of
                    None \<Rightarrow> None
                  | Some (r, w1) \<Rightarrow>
                      if r < 0 then Some (link_enter_failed w1)
                      else
                        (case ipv4ll (lnk w1) of
                           None \<Rightarrow> Some w1
                         | Some ll \<Rightarrow>
                             (case (if ipv4ll_is_bound ll then ipv4ll_address_update True w1
                                    else Some (call_sync Ipv4ll_stop w1)) of
                                None \<Rightarrow> None
                              | Some (r', w2) \<Rightarrow>
                                  if r' < 0 then Some (link_enter_failed w2) else Some w2)))
             | DHCP_EVENT_OTHER n \<Rightarrow>
                 (if n < 0 then Some (log_link LOG_WARNING ''DHCP error'' w)
                  else Some (log_link LOG_WARNING ''DHCP unknown event'' w))))"

section \<open>Carrier and link flags\<close>

definition link_acquire_conf :: "world \<Rightarrow> (int \<times> world) option" where
  "link_acquire_conf w =
     (case network (lnk w) of
        None \<Rightarrow> None
      | Some net \<Rightarrow>
          if \<not> event (mgr w) then None
          else
            (case (if net_ipv4ll net
                   then (if ipv4ll (lnk w) = None then None
                         else Some (call_sync Ipv4ll_start
                                      (log_link LOG_DEBUG ''acquiring IPv4 link-local address'' w)))
                   else Some (0, w)) of
               None \<Rightarrow> None
             | Some (r, w1) \<Rightarrow>
                 if r < 0 then Some (r, w1)
                 else if net_dhcp net
                 then (if dhcp_client (lnk w1) = None then None
                       else
                         let (r', w2) = call_sync Dhcp_client_start
                                          (log_link LOG_DEBUG ''acquiring DHCPv4 lease'' w1)
                         in if r' < 0 then Some (r', w2) else Some (0, w2))
                 else Some (0, w1)))"

text \<open>One \<open>if (flags_added & F) ... else if (flags_removed & F) ...\<close> pair of log lines.\<close>

definition log_flag ::
  "32 word \<Rightarrow> 32 word \<Rightarrow> 32 word \<Rightarrow> log_level \<Rightarrow> string \<Rightarrow> string \<Rightarrow> world \<Rightarrow> world" where
  "log_flag added removed f lv s1 s2 w =
     (if added AND f \<noteq> 0 then log_link lv s1 w
      else if removed AND f \<noteq> 0 then log_link lv s2 w
      else w)"

definition log_flags :: "32 word \<Rightarrow> 32 word \<Rightarrow> world \<Rightarrow> world" where
  "log_flags added removed w =
     (let generic_flags = NOT (IFF_UP OR IFF_LOWER_UP OR IFF_DORMANT OR IFF_DEBUG OR
                               IFF_MULTICAST OR IFF_BROADCAST OR IFF_PROMISC OR
                               IFF_NOARP OR IFF_MASTER OR IFF_SLAVE);
          w1 = log_flag added removed IFF_UP LOG_INFO ''link is up'' ''link is down'' w;
          w2 = log_flag added removed IFF_LOWER_UP LOG_DEBUG
                 ''link is lower up'' ''link is lower down'' w1;
          w3 = log_flag added removed IFF_DORMANT LOG_DEBUG
                 ''link is dormant'' ''link is not dormant'' w2;
          w4 = log_flag added removed IFF_DEBUG LOG_DEBUG
                 ''debugging enabled in the kernel'' ''debugging disabled in the kernel'' w3;
          w5 = log_flag added removed IFF_MULTICAST LOG_DEBUG
                 ''multicast enabled'' ''multicast disabled'' w4;
          w6 = log_flag added removed IFF_BROADCAST LOG_DEBUG
                 ''broadcast enabled'' ''broadcast disabled'' w5;
          w7 = log_flag added removed IFF_PROMISC LOG_DEBUG
                 ''promiscuous mode enabled'' ''promiscuous mode disabled'' w6;
          w8 = log_flag added removed IFF_NOARP LOG_DEBUG
                 ''ARP protocol disabled'' ''ARP protocol enabled'' w7;
          w9 = log_flag added removed IFF_MASTER LOG_DEBUG
                 ''link is master'' ''link is no longer master'' w8;
          w10 = log_flag added removed IFF_SLAVE LOG_DEBUG
                 ''link is slave'' ''link is no longer slave'' w9;
          w11 = (if added AND generic_flags \<noteq> 0
                 then log_link LOG_DEBUG ''unknown link flags gained'' w10 else w10)
      in if removed AND generic_flags \<noteq> 0
         then log_link LOG_DEBUG ''unknown link flags lost'' w11 else w11)"

text \<open>The branch \<open>else if (carrier_lost)\<close> of link_update_flags.\<close>

definition carrier_lost_stop :: "network \<Rightarrow> world \<Rightarrow> (int \<times> world) option" where
  "carrier_lost_stop net w =
     (let w0 = log_link LOG_INFO ''lost carrier'' w
      in (case (if net_dhcp net
                then (if dhcp_client (lnk w0) = None then None
                      else Some (call_sync Dhcp_client_stop w0))
                else Some (0, w0)) of
            None \<Rightarrow> None
          | Some (r, w1) \<Rightarrow>
              if r < 0
              then Some (r, link_enter_failed
                              (log_link LOG_WARNING ''Could not stop DHCPv4 client'' w1))
              else if net_ipv4ll net
              then (if ipv4ll (lnk w1) = None then None
                    else
                      let (r', w2) = call_sync Ipv4ll_stop w1
                      in if r' < 0
                         then Some (r', link_enter_failed
                                (log_link LOG_WARNING ''Could not stop IPv4 link-local'' w2))
                         else Some (0, w2))
              else Some (0, w1)))"

definition link_update_flags :: "32 word \<Rightarrow> world \<Rightarrow> (int \<times> world) option" where
  "link_update_flags fl w =
     (if state (lnk w) = LINK_STATE_FAILED then Some (0, w)
      else if flags (lnk w) = fl then Some (0, w)
      else
        let old = flags (lnk w);
            flags_added = (old XOR fl) AND fl;
            flags_removed = (old XOR fl) AND old;
            carrier_gained = ((flags_added AND IFF_LOWER_UP \<noteq> 0 \<and> fl AND IFF_DORMANT = 0) \<or>
                              (flags_removed AND IFF_DORMANT \<noteq> 0 \<and> fl AND IFF_LOWER_UP \<noteq> 0));
            carrier_lost = ((old AND IFF_LOWER_UP \<noteq> 0 \<and> old AND IFF_DORMANT = 0) \<and>
                            (flags_removed AND IFF_LOWER_UP \<noteq> 0 \<or> flags_added AND IFF_DORMANT \<noteq> 0));
            w1 = w\<lparr>lnk := (lnk w)\<lparr>flags := fl\<rparr>\<rparr>
        in (case network (lnk w1) of
              None \<Rightarrow> Some (0, w1)
            | Some net \<Rightarrow>
                let w2 = log_flags flags_added flags_removed w1
                in if carrier_gained
                   then
                     (let w3 = log_link LOG_INFO ''gained carrier'' w2
                      in if net_dhcp net \<or> net_ipv4ll net
                         then (case link_acquire_conf w3 of
                                 None \<Rightarrow> None
                               | Some (r, w4) \<Rightarrow>
                                   if r < 0
                                   then Some (r, link_enter_failed
                                          (log_link LOG_WARNING ''Could not acquire configuration'' w4))
                                   else Some (0, w4))
                         else Some (0, w3))
                   else if carrier_lost then carrier_lost_stop net w2
                   else Some (0, w2)))"

definition link_up_handler :: "rtnl_message \<Rightarrow> world \<Rightarrow> (int \<times> world) option" where
  "link_up_handler m w =
     (if state (lnk w) = LINK_STATE_FAILED then Some (1, w)
      else if 0 \<le> msg_errno m
      then (case link_update_flags (flags (lnk w) OR IFF_UP) w of
              None \<Rightarrow> None
            | Some (r, w1) \<Rightarrow> Some (1, w1))
      else Some (1, log_link LOG_WARNING ''could not bring up interface'' w))"

definition link_up :: "world \<Rightarrow> (int \<times> world) option" where
  "link_up w =
     (if \<not> rtnl (mgr w) then None
      else
        let w0 = log_link LOG_DEBUG ''bringing link up'' w;
            (r1, w1) = next_result w0
        in if r1 < 0
           then Some (r1, log_link LOG_ERR ''Could not allocate RTM_SETLINK message'' w1)
           else
             let (r2, w2) = next_result w1
             in if r2 < 0 then Some (r2, log_link LOG_ERR ''Could not set link flags'' w2)
                else
                  let (r3, w3) = call_async (Setlink_flags (ifindex (lnk w2)) IFF_UP IFF_UP)
                                   H_link_up_handler w2
                  in if r3 < 0
                     then Some (r3, log_link LOG_ERR ''Could not send rtnetlink message'' w3)
                     else Some (0, w3))"

section \<open>Enslaving\<close>

definition link_enslaved :: "world \<Rightarrow> (int \<times> world) option" where
  "link_enslaved w =
     (if state (lnk w) \<noteq> LINK_STATE_ENSLAVING then None
      else
        (case network (lnk w) of
           None \<Rightarrow> None
         | Some net \<Rightarrow>
             (case (if flags (lnk w) AND IFF_UP = 0 then link_up w else Some (0, w)) of
                None \<Rightarrow> None
              | Some (r, w1) \<Rightarrow>
                  if r < 0 then Some (r, link_enter_failed w1)
                  else if \<not> net_dhcp net \<and> \<not> net_ipv4ll net then link_enter_set_addresses w1
                  else Some (0, w1))))"

text \<open>
  \<open>link->enslaving --\<close> stands under no assert: at 0 the counter wraps around to
  UINT_MAX.
\<close>

definition enslave_handler :: "rtnl_message \<Rightarrow> world \<Rightarrow> (int \<times> world) option" where
  "enslave_handler m w =
     (if \<not> (state (lnk w) = LINK_STATE_ENSLAVING \<or> state (lnk w) = LINK_STATE_FAILED) then None
      else if network (lnk w) = None then None
      else
        let w1 = w\<lparr>lnk := (lnk w)\<lparr>enslaving := enslaving (lnk w) - 1\<rparr>\<rparr>
        in if state (lnk w1) = LINK_STATE_FAILED then Some (1, w1)
           else if msg_errno m < 0
           then Some (1, link_enter_failed (log_link LOG_ERR ''could not enslave'' w1))
           else
             let w2 = log_link LOG_DEBUG ''enslaved'' w1
             in if enslaving (lnk w2) = 0
                then (case link_enslaved w2 of
                        None \<Rightarrow> None
                      | Some (r, w3) \<Rightarrow> Some (1, w3))
                else Some (1, w2))"

text \<open>One \<open>netdev_enslave\<close> request with its error path and \<open>link->enslaving ++\<close>.\<close>

definition enslave_one :: "netdev \<Rightarrow> world \<Rightarrow> int option \<times> world" where
  "enslave_one nd w =
     (let (r, w1) = call_async (Netdev_enslave nd) H_enslave_handler
                      (log_link LOG_DEBUG ''enslaving by'' w)
      in if r < 0
         then (Some r, link_enter_failed (log_link LOG_WARNING ''could not enslave by'' w1))
         else (None, w1\<lparr>lnk := (lnk w1)\<lparr>enslaving := enslaving (lnk w1) + 1\<rparr>\<rparr>))"

fun enslave_all :: "netdev list \<Rightarrow> world \<Rightarrow> int option \<times> world" where
  "enslave_all [] w = (None, w)"
| "enslave_all (nd # nds) w =
     (case enslave_one nd w of
        (Some r, w1) \<Rightarrow> (Some r, w1)
      | (None, w1) \<Rightarrow> enslave_all nds w1)"

definition enslave_opt :: "netdev option \<Rightarrow> world \<Rightarrow> int option \<times> world" where
  "enslave_opt nd w = (case nd of None \<Rightarrow> (None, w) | Some d \<Rightarrow> enslave_one d w)"

definition link_enter_enslave :: "world \<Rightarrow> (int \<times> world) option" where
  "link_enter_enslave w =
     (case network (lnk w) of
        None \<Rightarrow> None
      | Some net \<Rightarrow>
          if state (lnk w) \<noteq> LINK_STATE_INITIALIZING then None
          else
            let w1 = snd (link_save (w\<lparr>lnk := (lnk w)\<lparr>state := LINK_STATE_ENSLAVING\<rparr>\<rparr>))
            in if bridge net = None \<and> bond net = None \<and> vlans net = [] \<and> macvlans net = []
               then link_enslaved w1
               else
                 (case enslave_opt (bridge net) w1 of
                    (Some r, w2) \<Rightarrow> Some (r, w2)
                  | (None, w2) \<Rightarrow>
                      (case enslave_opt (bond net) w2 of
                         (Some r, w3) \<Rightarrow> Some (r, w3)
                       | (None, w3) \<Rightarrow>
                           (case enslave_all (vlans net) w3 of
                              (Some r, w4) \<Rightarrow> Some (r, w4)
                            | (None, w4) \<Rightarrow>
                                (case enslave_all (macvlans net) w4 of
                                   (Some r, w5) \<Rightarrow> Some (r, w5)
                                 | (None, w5) \<Rightarrow> Some (0, w5))))))"

section \<open>Configuring a link (link_configure, link_initialized, link_update)\<close>

text \<open>Calls made one after the other, each under \<open>if (r < 0) return r\<close>.\<close>

fun calls_in_turn :: "call list \<Rightarrow> world \<Rightarrow> int option \<times> world" where
  "calls_in_turn [] w = (None, w)"
| "calls_in_turn (c # cs) w =
     (let (r, w1) = call_sync c w
      in if r < 0 then (Some r, w1) else calls_in_turn cs w1)"

definition configure_ipv4ll :: "network \<Rightarrow> world \<Rightarrow> int option \<times> world" where
  "configure_ipv4ll net w =
     (if \<not> net_ipv4ll net then (None, w)
      else
        let (r, w1) = call_sync Ipv4ll_new w
        in if r < 0 then (Some r, w1)
           else
             let w2 = w1\<lparr>lnk := (lnk w1)\<lparr>ipv4ll := Some (new_ipv4ll (cfg w1))\<rparr>\<rparr>
             in (case (if udev_device (lnk w2)
                       then (let (r0, w3) = next_result w2
                             in if 0 \<le> r0 then calls_in_turn [Ipv4ll_set_address_seed] w3
                                else (None, w3))
                       else (None, w2)) of
                   (Some r', w4) \<Rightarrow> (Some r', w4)
                 | (None, w4) \<Rightarrow>
                     calls_in_turn [Ipv4ll_attach_event, Ipv4ll_set_index (ifindex (lnk w4)),
                                    Ipv4ll_set_callback] w4))"

definition configure_dhcp :: "network \<Rightarrow> world \<Rightarrow> int option \<times> world" where
  "configure_dhcp net w =
     (if \<not> net_dhcp net then (None, w)
      else
        let (r, w1) = call_sync Dhcp_client_new w
        in if r < 0 then (Some r, w1)
           else
             let w2 = w1\<lparr>lnk := (lnk w1)\<lparr>dhcp_client := Some (new_dhcp_client (cfg w1))\<rparr>\<rparr>
             in calls_in_turn
                  ([Dhcp_client_attach_event, Dhcp_client_set_index (ifindex (lnk w2)),
                    Dhcp_client_set_callback] @
                   (if dhcp_mtu net then [Dhcp_client_set_request_option 26] else [])) w2)"

definition link_configure :: "world \<Rightarrow> (int \<times> world) option" where
  "link_configure w =
     (if state (lnk w) \<noteq> LINK_STATE_INITIALIZING then None
      else
        (case network (lnk w) of
           None \<Rightarrow> None
         | Some net \<Rightarrow>
             (case configure_ipv4ll net w of
                (Some r, w1) \<Rightarrow> Some (r, w1)
              | (None, w1) \<Rightarrow>
                  (case configure_dhcp net w1 of
                     (Some r, w2) \<Rightarrow> Some (r, w2)
                   | (None, w2) \<Rightarrow> link_enter_enslave w2))))"

text \<open>
  Modelled from the spec: \<open>network_apply\<close> is not among the sources; it stores the
  matched profile in \<open>link->network\<close> (the profile match of the spec's lifecycle) and
  returns a result.
\<close>

definition network_apply :: "network \<Rightarrow> world \<Rightarrow> int \<times> world" where
  "network_apply net w = next_result (w\<lparr>lnk := (lnk w)\<lparr>network := Some net\<rparr>\<rparr>)"

text \<open>
  \<open>link_initialized(link, device)\<close>. \<open>device\<close> tells whether a udev device is given;
  \<open>found\<close> is what \<open>network_get\<close> answers.
\<close>

definition link_initialized :: "bool \<Rightarrow> network res \<Rightarrow> world \<Rightarrow> (int \<times> world) option" where
  "link_initialized device found w =
     (if ifname (lnk w) = None then None
      else if state (lnk w) \<noteq> LINK_STATE_INITIALIZING then Some (0, w)
      else
        let w1 = (if device then w\<lparr>lnk := (lnk w)\<lparr>udev_device := True\<rparr>\<rparr> else w);
            w2 = log_link LOG_DEBUG ''link initialized'' w1
        in (case found of
              Failed r \<Rightarrow> Some (if r = - ENOENT then 0 else r, w2)
            | Got net \<Rightarrow>
                let (r, w4) = network_apply net w2
                in if r < 0 then Some (r, w4)
                   else
                     (case link_configure w4 of
                        None \<Rightarrow> None
                      | Some (r1, w5) \<Rightarrow>
                          if r1 < 0 then Some (r1, w5)
                          else
                            let fl = flags (lnk w5);
                                w6 = w5\<lparr>lnk := (lnk w5)\<lparr>flags := 0\<rparr>\<rparr>
                            in (case link_update_flags fl w6 of
                                  None \<Rightarrow> None
                                | Some (r2, w7) \<Rightarrow>
                                    if r2 < 0 then Some (r2, w7) else Some (0, w7)))))"

text \<open>The block of link_update that takes over a changed MAC address.\<close>

definition link_update_mac :: "rtnl_message \<Rightarrow> world \<Rightarrow> int option \<times> world" where
  "link_update_mac m w =
     (case msg_address m of
        Failed r \<Rightarrow> (None, w)
      | Got a \<Rightarrow>
          if mac (lnk w) = a then (None, w)
          else
            let w1 = log_link LOG_DEBUG ''MAC address'' (w\<lparr>lnk := (lnk w)\<lparr>mac := a\<rparr>\<rparr>)
            in (case (if ipv4ll (lnk w1) \<noteq> None
                      then (let (r, w2) = call_sync (Ipv4ll_set_mac a) w1
                            in if r < 0
                               then (Some r, log_link LOG_WARNING
                                       ''Could not update MAC address in IPv4LL client'' w2)
                               else (None, w2))
                      else (None, w1)) of
                  (Some r, w3) \<Rightarrow> (Some r, w3)
                | (None, w3) \<Rightarrow>
                    if dhcp_client (lnk w3) \<noteq> None
                    then (let (r, w4) = call_sync (Dhcp_client_set_mac a) w3
                          in if r < 0
                             then (Some r, log_link LOG_WARNING
                                     ''Could not update MAC address in DHCP client'' w4)
                             else (None, w4))
                    else (None, w3)))"

text \<open>The block of link_update that takes over a changed interface name.\<close>

definition link_update_name :: "string \<Rightarrow> rtnl_message \<Rightarrow> world \<Rightarrow> int option \<times> world" where
  "link_update_name old_name m w =
     (case msg_ifname m of
        Failed r \<Rightarrow> (None, w)
      | Got name \<Rightarrow>
          if name \<noteq> old_name
          then (let (r, w1) = next_result (log_link LOG_INFO ''renamed'' w)
                in if r < 0
                   then (Some (- ENOMEM), w1\<lparr>lnk := (lnk w1)\<lparr>ifname := None\<rparr>\<rparr>)
                   else (None, w1\<lparr>lnk := (lnk w1)\<lparr>ifname := Some name\<rparr>\<rparr>))
          else (None, w))"

text \<open>
  The block of link_update that saves the original MTU. It is read from the message only
  while the field is still 0; a read that fails leaves the field as it is.
\<close>

definition link_update_mtu :: "rtnl_message \<Rightarrow> world \<Rightarrow> world" where
  "link_update_mtu m w =
     (if original_mtu (lnk w) = 0
      then (case msg_mtu m of
              Failed r \<Rightarrow> w
            | Got v \<Rightarrow>
                log_link LOG_DEBUG ''saved original MTU'' (w\<lparr>lnk := (lnk w)\<lparr>original_mtu := v\<rparr>\<rparr>))
      else w)"

definition link_update :: "rtnl_message \<Rightarrow> world \<Rightarrow> (int \<times> world) option" where
  "link_update m w =
     (case ifname (lnk w) of
        None \<Rightarrow> None
      | Some old_name \<Rightarrow>
          if state (lnk w) = LINK_STATE_FAILED then Some (0, w)
          else
            (case link_update_name old_name m w of
               (Some r, w2) \<Rightarrow> Some (r, w2)
             | (None, w2) \<Rightarrow>
                 (case link_update_mac m (link_update_mtu m w2) of
                    (Some r, w4) \<Rightarrow> Some (r, w4)
                  | (None, w4) \<Rightarrow>
                      (case msg_flags m of
                         Failed r \<Rightarrow> Some (r, log_link LOG_WARNING ''Could not get link flags'' w4)
                       | Got fl \<Rightarrow> link_update_flags fl w4))))"

section \<open>The event-driven machine\<close>

text \<open>
  One link on the single-threaded event loop. An event is a call of link_initialized or
  link_update, a completion of a kernel request, a completion of an enslave request, or
  an event of the DHCP or the IPv4LL client (possible once the client exists). With each
  event come the results that the collaborators return during it and the state the two
  clients are in.

  Modelled from the spec: the adapter is not among the sources; by its contract
  (section 4.2 (i), section 5) the completions of its operations (\<open>address_*\<close>,
  \<open>route_*\<close>, \<open>link_set_flags\<close>, \<open>link_set_mtu\<close>) are delivered in submission order per
  link, so such a completion goes to the oldest of these callbacks that \<open>pending\<close>
  holds. \<open>netdev_enslave\<close> is not an operation of the adapter and nothing is said of
  when its callback runs: an enslave completion may come at any time while one is owed.
\<close>

datatype input =
    In_initialized bool "network res"
  | In_update rtnl_message
  | In_completion rtnl_message
  | In_enslaved rtnl_message
  | In_dhcp dhcp_event
  | In_ipv4ll ipv4ll_event

record surroundings =
  s_results :: "int list"
  s_ipv4ll :: sd_ipv4ll
  s_dhcp_client :: sd_dhcp_client

definition arrive :: "surroundings \<Rightarrow> world \<Rightarrow> world" where
  "arrive e w =
     w\<lparr>results := s_results e,
       lnk := (lnk w)\<lparr>ipv4ll := map_option (\<lambda>x. s_ipv4ll e) (ipv4ll (lnk w)),
                      dhcp_client := map_option (\<lambda>x. s_dhcp_client e) (dhcp_client (lnk w))\<rparr>\<rparr>"

definition run_handler :: "handler \<Rightarrow> rtnl_message \<Rightarrow> world \<Rightarrow> (int \<times> world) option" where
  "run_handler h m w =
     (case h of
        H_route_handler \<Rightarrow> route_handler m w
      | H_route_drop_handler \<Rightarrow> route_drop_handler m w
      | H_address_handler \<Rightarrow> address_handler m w
      | H_address_update_handler \<Rightarrow> address_update_handler m w
      | H_address_drop_handler \<Rightarrow> address_drop_handler m w
      | H_set_mtu_handler \<Rightarrow> set_mtu_handler m w
      | H_link_up_handler \<Rightarrow> link_up_handler m w
      | H_enslave_handler \<Rightarrow> enslave_handler m w)"

text \<open>The oldest callback owed by the adapter, and the callbacks that stay owed.\<close>

fun take_adapter :: "handler list \<Rightarrow> (handler \<times> handler list) option" where
  "take_adapter [] = None"
| "take_adapter (h # hs) =
     (if h = H_enslave_handler
      then (case take_adapter hs of None \<Rightarrow> None | Some (x, r) \<Rightarrow> Some (x, h # r))
      else Some (h, hs))"

definition step :: "surroundings \<Rightarrow> input \<Rightarrow> world \<Rightarrow> world option" where
  "step e i w =
     (let w0 = arrive e w
      in (case i of
            In_initialized device found \<Rightarrow> map_option snd (link_initialized device found w0)
          | In_update m \<Rightarrow> map_option snd (link_update m w0)
          | In_completion m \<Rightarrow>
              (case take_adapter (pending w0) of
                 None \<Rightarrow> None
               | Some (h, hs) \<Rightarrow> map_option snd (run_handler h m (w0\<lparr>pending := hs\<rparr>)))
          | In_enslaved m \<Rightarrow>
              (if H_enslave_handler \<in> set (pending w0)
               then map_option snd
                      (enslave_handler m
                         (w0\<lparr>pending := remove1 H_enslave_handler (pending w0)\<rparr>))
               else None)
          | In_dhcp ev \<Rightarrow> if dhcp_client (lnk w0) = None then None else dhcp_handler ev w0
          | In_ipv4ll ev \<Rightarrow> if ipv4ll (lnk w0) = None then None else ipv4ll_handler ev w0))"

text \<open>A link as link_new leaves it, before any request has been made for it.\<close>

definition fresh_link :: "link \<Rightarrow> bool" where
  "fresh_link l =
     (state l = LINK_STATE_INITIALIZING \<and> addr_messages l = 0 \<and> route_messages l = 0 \<and>
      enslaving l = 0 \<and> network l = None \<and> dhcp_client l = None \<and> dhcp_lease l = None \<and>
      ipv4ll l = None \<and> original_mtu l = 0 \<and> flags l = 0 \<and> ifname l \<noteq> None)"

inductive reachable :: "world \<Rightarrow> bool" where
  reachable_init: "fresh_link (lnk w) \<Longrightarrow> pending w = [] \<Longrightarrow> reachable w"
| reachable_step: "reachable w \<Longrightarrow> step e i w = Some w' \<Longrightarrow> reachable w'"

section \<open>Runs in which every collaborator call succeeds\<close>

text \<open>
  Every result that the collaborators still have to return is non-negative: no request,
  allocation or accessor call of the run fails.
\<close>

definition all_succeed :: "world \<Rightarrow> bool" where
  "all_succeed w = list_all (\<lambda>r. 0 \<le> r) (results w)"

section \<open>Parts of the code that leave the link as it is\<close>

text \<open>\<open>quiet\<close>: the link, the manager and the parameters are what they were.\<close>

definition quiet :: "world \<Rightarrow> world \<Rightarrow> bool" where
  "quiet w w' = (lnk w' = lnk w \<and> mgr w' = mgr w \<and> cfg w' = cfg w)"

section \<open>Runs of the machine\<close>

text \<open>
  \<open>run\<close> is the world after a list of events (None when an assertion fails on the
  way), \<open>trace\<close> the worlds the link goes through, up to the first event that fails.
\<close>

fun run :: "(surroundings \<times> input) list \<Rightarrow> world \<Rightarrow> world option" where
  "run [] w = Some w"
| "run (ei # evs) w = (case step (fst ei) (snd ei) w of None \<Rightarrow> None | Some w1 \<Rightarrow> run evs w1)"

fun trace :: "(surroundings \<times> input) list \<Rightarrow> world \<Rightarrow> world list" where
  "trace [] w = [w]"
| "trace (ei # evs) w =
     w # (case step (fst ei) (snd ei) w of None \<Rightarrow> [] | Some w1 \<Rightarrow> trace evs w1)"

text \<open>How many times the value changes from one element of a list to the next.\<close>

fun changes :: "'a list \<Rightarrow> nat" where
  "changes (x # y # xs) = (if x \<noteq> y then 1 else 0) + changes (y # xs)"
| "changes xs = 0"

text \<open>The MTU values of the RTM_SETLINK requests made so far, in the order they were made.\<close>

definition mtu_requests :: "world \<Rightarrow> 32 word list" where
  "mtu_requests w =
     concat (map (\<lambda>cr. case fst cr of Setlink_mtu i v \<Rightarrow> [v] | _ \<Rightarrow> []) (calls w))"

text \<open>
  The condition under which dhcp_lease_lost sets the MTU again: the profile asks for the
  lease's MTU, the lease carries one, and it is not the original MTU.
\<close>

definition restoring :: "world \<Rightarrow> bool" where
  "restoring w =
     (case (network (lnk w), dhcp_lease (lnk w)) of
        (Some net, Some lease) \<Rightarrow>
          dhcp_mtu net \<and>
          (case lease_mtu lease of Failed r \<Rightarrow> False | Got mtu \<Rightarrow> original_mtu (lnk w) \<noteq> mtu)
      | _ \<Rightarrow> False)"

section \<open>Example values\<close>

text \<open>Concrete values at which the theorems below are instantiated.\<close>

definition ex_address :: address where
  "ex_address = \<lparr>family = 0, in_addr = 0, prefixlen = 0, broadcast = 0, scope = 0,
                  ifa_prefered = CACHE_INFO_INFINITY_LIFE_TIME\<rparr>"

definition ex_route :: route where
  "ex_route = \<lparr>rt_family = 0, dst_addr = 0, dst_prefixlen = 0, rt_scope = 0, metrics = 0,
                rt_in_addr = 0\<rparr>"

definition ex_params :: params where
  "ex_params = \<lparr>new_address = ex_address, new_route = ex_route,
                 net_netmask_to_prefixlen = (\<lambda>m. if m = 0xFFFFFF00 then 24 else 32),
                 temp_path_of = (\<lambda>p. p @ ''.tmp''),
                 uninitialised = 0,
                 new_ipv4ll = \<lparr>ll_address = Failed (- ENOENT), ll_running = False\<rparr>,
                 new_dhcp_client = \<lparr>client_lease = Failed (- ENOENT)\<rparr>\<rparr>"

definition ex_network :: network where
  "ex_network = \<lparr>static_addresses = [], static_routes = [], net_dhcp = True,
                  net_ipv4ll = False, dhcp_mtu = True, dhcp_dns = False, dhcp_hostname = False,
                  dhcp_critical = False, bridge = None, bond = None, vlans = [], macvlans = []\<rparr>"

text \<open>The lease of the spec's scenario B: 192.168.1.50/24 via 192.168.1.1, MTU 1400.\<close>

definition ex_lease :: sd_dhcp_lease where
  "ex_lease = \<lparr>lease_address = Got 0xC0A80132, lease_netmask = Got 0xFFFFFF00,
                lease_router = Got 0xC0A80101, lease_mtu = Got 1400,
                lease_hostname = Got None, lease_dns = Failed (- ENOENT)\<rparr>"

definition ex_link :: link where
  "ex_link = \<lparr>ifindex = 7, ifname = Some ''eth0'',
               state_file = ''/run/systemd/network/links/7'',
               mac = [0, 0, 0, 0, 0, 0], udev_device = False, flags = 0,
               network = Some ex_network, state = LINK_STATE_INITIALIZING,
               addr_messages = 0, route_messages = 0, enslaving = 0,
               dhcp_client = None, dhcp_lease = None, original_mtu = 1500, ipv4ll = None\<rparr>"

definition ex_world :: world where
  "ex_world = \<lparr>lnk = ex_link,
                mgr = \<lparr>rtnl = True, event = True, bus = False, links = Map.empty\<rparr>,
                cfg = ex_params, fsys = Map.empty, calls = [], logs = [], pending = [],
                results = []\<rparr>"

definition ex_message :: rtnl_message where
  "ex_message = \<lparr>msg_type = Got RTM_NEWLINK, msg_ifindex = Got 7, msg_ifname = Got ''eth0'',
                  msg_mtu = Got 1500, msg_address = Failed (- ENOENT), msg_flags = Got 0,
                  msg_errno = 0\<rparr>"

text \<open>
  A link as link_new leaves it, and a run of it: the kernel announces the link, udev
  reports it initialized and the profile is found, the link comes up, the DHCP client
  acquires the lease, and the kernel acknowledges the MTU, the address and the two
  routes.
\<close>

definition ex_fresh_world :: world where
  "ex_fresh_world = ex_world\<lparr>lnk := ex_link\<lparr>network := None, original_mtu := 0\<rparr>\<rparr>"

definition ex_surroundings :: surroundings where
  "ex_surroundings = \<lparr>s_results = [], s_ipv4ll = \<lparr>ll_address = Failed (- ENOENT), ll_running = False\<rparr>,
                      s_dhcp_client = \<lparr>client_lease = Got ex_lease\<rparr>\<rparr>"

definition ex_run :: "(surroundings \<times> input) list" where
  "ex_run = [(ex_surroundings, In_update ex_message),
             (ex_surroundings, In_initialized False (Got ex_network)),
             (ex_surroundings, In_completion ex_message),
             (ex_surroundings, In_dhcp DHCP_EVENT_IP_ACQUIRE),
             (ex_surroundings, In_completion ex_message),
             (ex_surroundings, In_completion ex_message),
             (ex_surroundings, In_completion ex_message),
             (ex_surroundings, In_completion ex_message)]"

text \<open>
  A profile that names the bridge br0 and asks for DHCP, and a run of a link with it:
  the kernel announces the link with carrier, the profile is found (the enslave request
  goes out and the DHCP client is started), the lease arrives before the enslave request
  completes, and the kernel acknowledges the MTU, the address and the two routes.
\<close>

definition ex_bridged_network :: network where
  "ex_bridged_network = ex_network\<lparr>bridge := Some \<lparr>netdev_name = ''br0''\<rparr>\<rparr>"

definition ex_race_run :: "(surroundings \<times> input) list" where
  "ex_race_run =
     [(ex_surroundings, In_update (ex_message\<lparr>msg_flags := Got (IFF_UP OR IFF_LOWER_UP)\<rparr>)),
      (ex_surroundings, In_initialized False (Got ex_bridged_network)),
      (ex_surroundings, In_dhcp DHCP_EVENT_IP_ACQUIRE),
      (ex_surroundings, In_completion ex_message),
      (ex_surroundings, In_completion ex_message),
      (ex_surroundings, In_completion ex_message),
      (ex_surroundings, In_completion ex_message)]"

text \<open>Later the lease expires, and the kernel announces the link with another MTU.\<close>

definition ex_later :: "(surroundings \<times> input) list" where
  "ex_later = [(ex_surroundings, In_dhcp DHCP_EVENT_EXPIRED),
               (ex_surroundings, In_update (ex_message\<lparr>msg_mtu := Got 9000\<rparr>))]"

text \<open>
  A configured link that holds a lease, with an older state file in place; the third
  collaborator result, that of dhcp_lease_save, is an error.
\<close>

definition ex_saving_world :: world where
  "ex_saving_world =
     ex_world\<lparr>lnk := ex_link\<lparr>state := LINK_STATE_CONFIGURED, dhcp_lease := Some ex_lease\<rparr>,
              fsys := [''/run/systemd/network/links/7'' \<mapsto> ''STATE=configuring\<newline>''],
              results := [0, 0, - 5]\<rparr>"

section \<open>What the primitives leave unchanged\<close>

lemma next_result_frame [simp]:
  "lnk (snd (next_result w)) = lnk w"
  "mgr (snd (next_result w)) = mgr w"
  "cfg (snd (next_result w)) = cfg w"
  "pending (snd (next_result w)) = pending w"
  "fsys (snd (next_result w)) = fsys w"
  "calls (snd (next_result w)) = calls w"
  "logs (snd (next_result w)) = logs w"
  by (simp_all add: next_result_def split: list.splits)

lemma call_sync_frame [simp]:
  "lnk (snd (call_sync c w)) = lnk w"
  "mgr (snd (call_sync c w)) = mgr w"
  "cfg (snd (call_sync c w)) = cfg w"
  "pending (snd (call_sync c w)) = pending w"
  "fsys (snd (call_sync c w)) = fsys w"
  "logs (snd (call_sync c w)) = logs w"
  by (simp_all add: call_sync_def case_prod_beta)

lemma call_async_frame [simp]:
  "lnk (snd (call_async c h w)) = lnk w"
  "mgr (snd (call_async c h w)) = mgr w"
  "cfg (snd (call_async c h w)) = cfg w"
  "fsys (snd (call_async c h w)) = fsys w"
  "logs (snd (call_async c h w)) = logs w"
  by (simp_all add: call_async_def case_prod_beta)

lemma call_async_pending:
  "pending (snd (call_async c h w)) =
     (if 0 \<le> fst (call_async c h w) then pending w @ [h] else pending w)"
  by (simp add: call_async_def case_prod_beta)

lemma log_link_frame [simp]:
  "lnk (log_link lv s w) = lnk w"
  "mgr (log_link lv s w) = mgr w"
  "cfg (log_link lv s w) = cfg w"
  "pending (log_link lv s w) = pending w"
  "fsys (log_link lv s w) = fsys w"
  "calls (log_link lv s w) = calls w"
  "results (log_link lv s w) = results w"
  "logs (log_link lv s w) = logs w @ [(lv, s)]"
  by (simp_all add: log_link_def)

lemma link_save_finish_frame [simp]:
  "lnk (snd (link_save_finish r w)) = lnk w"
  "mgr (snd (link_save_finish r w)) = mgr w"
  "cfg (snd (link_save_finish r w)) = cfg w"
  "pending (snd (link_save_finish r w)) = pending w"
  by (simp_all add: link_save_finish_def)

lemma link_save_commit_frame [simp]:
  "lnk (snd (link_save_commit r t w)) = lnk w"
  "mgr (snd (link_save_commit r t w)) = mgr w"
  "cfg (snd (link_save_commit r t w)) = cfg w"
  "pending (snd (link_save_commit r t w)) = pending w"
  by (simp_all add: link_save_commit_def case_prod_beta Let_def)

lemma fopen_temporary_frame [simp]:
  "lnk (snd (fopen_temporary p w)) = lnk w"
  "mgr (snd (fopen_temporary p w)) = mgr w"
  "cfg (snd (fopen_temporary p w)) = cfg w"
  "pending (snd (fopen_temporary p w)) = pending w"
  by (simp_all add: fopen_temporary_def case_prod_beta Let_def)

lemma fprintf_frame [simp]:
  "lnk (fprintf p s w) = lnk w"
  "mgr (fprintf p s w) = mgr w"
  "cfg (fprintf p s w) = cfg w"
  "pending (fprintf p s w) = pending w"
  "results (fprintf p s w) = results w"
  "calls (fprintf p s w) = calls w"
  "logs (fprintf p s w) = logs w"
  by (simp_all add: fprintf_def)

lemma link_save_frame [simp]:
  "lnk (snd (link_save w)) = lnk w"
  "mgr (snd (link_save w)) = mgr w"
  "cfg (snd (link_save w)) = cfg w"
  "pending (snd (link_save w)) = pending w"
  by (simp_all add: link_save_def case_prod_beta Let_def split: option.splits)

lemma link_enter_failed_frame [simp]:
  "lnk (link_enter_failed w) = (lnk w)\<lparr>state := LINK_STATE_FAILED\<rparr>"
  "mgr (link_enter_failed w) = mgr w"
  "cfg (link_enter_failed w) = cfg w"
  "pending (link_enter_failed w) = pending w"
  by (simp_all add: link_enter_failed_def case_prod_beta Let_def)

lemma link_enter_configured_Some:
  "link_enter_configured w = Some (r, w') \<longleftrightarrow>
     state (lnk w) = LINK_STATE_SETTING_ROUTES \<and> r = 0 \<and>
     w' = snd (link_save ((log_link LOG_INFO ''link configured'' w)
            \<lparr>lnk := (lnk w)\<lparr>state := LINK_STATE_CONFIGURED\<rparr>\<rparr>))"
  by (auto simp add: link_enter_configured_def case_prod_beta Let_def)

lemma link_save_finish_logs:
  "logs (snd (link_save_finish r w)) =
     logs w @ (if r < 0 then [(LOG_ERR, ''Failed to save link data'')] else [])"
  by (simp add: link_save_finish_def)

lemma link_save_commit_logs:
  "logs (snd (link_save_commit r t w)) = logs w \<or>
   logs (snd (link_save_commit r t w)) = logs w @ [(LOG_ERR, ''Failed to save link data'')]"
  by (simp add: link_save_commit_def link_save_finish_def case_prod_beta Let_def)

lemma fopen_temporary_logs [simp]: "logs (snd (fopen_temporary p w)) = logs w"
  by (simp add: fopen_temporary_def case_prod_beta Let_def)

lemma link_save_logs:
  "logs (snd (link_save w)) = logs w \<or>
   logs (snd (link_save w)) = logs w @ [(LOG_ERR, ''Failed to save link data'')]"
proof (cases "fst (fopen_temporary (state_file (lnk w)) w) < 0")
  case True
  then show ?thesis
    by (simp add: link_save_def link_save_finish_def case_prod_beta Let_def)
next
  case False
  note nofail = this
  show ?thesis
  proof (cases "dhcp_lease (lnk w)")
    case None
    then show ?thesis
      using nofail
        link_save_commit_logs[of "fst (fopen_temporary (state_file (lnk w)) w)"
          "temp_path_of (cfg w) (state_file (lnk w))"
          "fprintf (temp_path_of (cfg w) (state_file (lnk w)))
             (''# This is private data. Do not parse.\<newline>'' @ ''STATE='' @
              link_state_to_string (state (lnk w)) @ ''\<newline>'')
             (snd (fopen_temporary (state_file (lnk w)) w))"]
      by (simp add: link_save_def case_prod_beta Let_def)
  next
    case (Some lease)
    let ?w2 = "fprintf (temp_path_of (cfg w) (state_file (lnk w)))
             (''# This is private data. Do not parse.\<newline>'' @ ''STATE='' @
              link_state_to_string (state (lnk w)) @ ''\<newline>'')
             (snd (fopen_temporary (state_file (lnk w)) w))"
    let ?w3 = "snd (next_result ?w2)"
    let ?lf = "''/run/systemd/network/leases/'' @ dec (unat (ifindex (lnk w)))"
    let ?c = "call_sync (Dhcp_lease_save ?lf) ?w3"
    show ?thesis
      using nofail Some
        link_save_commit_logs[of "fst ?c" "temp_path_of (cfg w) (state_file (lnk w))"
           "fprintf (temp_path_of (cfg w) (state_file (lnk w))) (''DHCP_LEASE='' @ ?lf @ ''\<newline>'') (snd ?c)"]
      by (simp add: link_save_def link_save_finish_def case_prod_beta Let_def)
  qed
qed

lemma link_enter_configured_logs:
  assumes "link_enter_configured w = Some (r, w')"
  shows "(LOG_INFO, ''link configured'') \<in> set (drop (length (logs w)) (logs w'))"
proof -
  let ?w2 = "(log_link LOG_INFO ''link configured'' w)\<lparr>lnk := (lnk w)\<lparr>state := LINK_STATE_CONFIGURED\<rparr>\<rparr>"
  from assms have w': "w' = snd (link_save ?w2)"
    by (simp add: link_enter_configured_Some)
  show ?thesis using w' link_save_logs[of ?w2] by auto
qed

lemma link_enter_configured_logs_prefix:
  assumes "link_enter_configured w = Some (r, w')"
  shows "\<exists>x. logs w' = logs w @ x"
proof -
  let ?w2 = "(log_link LOG_INFO ''link configured'' w)\<lparr>lnk := (lnk w)\<lparr>state := LINK_STATE_CONFIGURED\<rparr>\<rparr>"
  from assms have w': "w' = snd (link_save ?w2)"
    by (simp add: link_enter_configured_Some)
  show ?thesis using w' link_save_logs[of ?w2] by auto
qed

section \<open>Claim C1: the route handler and stale acknowledgments\<close>

text \<open>
  Claim C1. When a route completion arrives (the asserts of route_handler hold),
  route_handler returns, it decrements \<open>route_messages\<close>, and it enters CONFIGURED (the
  state becomes CONFIGURED and link_enter_configured logs "link configured") exactly when
  the decremented counter is zero and the state at that time is SETTING_ROUTES. An
  acknowledgment that arrives after the machine went back to SETTING_ADDRESSES leaves the
  state at SETTING_ADDRESSES.
\<close>

theorem route_handler_enters_configured:
  assumes "0 < route_messages (lnk w)"
    and "state (lnk w) = LINK_STATE_SETTING_ADDRESSES \<or>
         state (lnk w) = LINK_STATE_SETTING_ROUTES \<or>
         state (lnk w) = LINK_STATE_FAILED"
  shows "\<exists>w'. route_handler m w = Some (1, w') \<and>
           route_messages (lnk w') = route_messages (lnk w) - 1 \<and>
           (state (lnk w') = LINK_STATE_CONFIGURED \<longleftrightarrow>
              route_messages (lnk w) - 1 = 0 \<and> state (lnk w) = LINK_STATE_SETTING_ROUTES) \<and>
           ((LOG_INFO, ''link configured'') \<in> set (drop (length (logs w)) (logs w')) \<longleftrightarrow>
              route_messages (lnk w) - 1 = 0 \<and> state (lnk w) = LINK_STATE_SETTING_ROUTES) \<and>
           (state (lnk w) = LINK_STATE_SETTING_ADDRESSES \<longrightarrow>
              state (lnk w') = LINK_STATE_SETTING_ADDRESSES)"
proof (cases "route_messages (lnk w) - 1 = 0 \<and> state (lnk w) = LINK_STATE_SETTING_ROUTES")
  case True
  define w1 where "w1 = w\<lparr>lnk := (lnk w)\<lparr>route_messages := route_messages (lnk w) - 1\<rparr>\<rparr>"
  define w2 where "w2 = (if msg_errno m < 0 \<and> msg_errno m \<noteq> - EEXIST
             then log_link LOG_WARNING ''could not set route'' w1 else w1)"
  define w3 where "w3 = log_link LOG_DEBUG ''routes set'' w2"
  have l3: "lnk w3 = lnk w1" by (simp add: w3_def w2_def)
  have st: "state (lnk w3) = LINK_STATE_SETTING_ROUTES" using True by (simp add: l3 w1_def)
  then obtain r' w' where cf: "link_enter_configured w3 = Some (r', w')"
    by (simp add: link_enter_configured_Some)
  have rh: "route_handler m w = Some (1, w')"
    using assms True cf unfolding route_handler_def Let_def w3_def w2_def w1_def
    by simp
  have l: "lnk w' = (lnk w3)\<lparr>state := LINK_STATE_CONFIGURED\<rparr>"
    using cf by (simp add: link_enter_configured_Some)
  have a: "(LOG_INFO, ''link configured'') \<in> set (drop (length (logs w3)) (logs w'))"
    using cf by (rule link_enter_configured_logs)
  have "\<exists>y. logs w3 = logs w @ y" by (simp add: w3_def w2_def w1_def)
  then obtain y where y: "logs w3 = logs w @ y" by blast
  obtain x where x: "logs w' = logs w3 @ x"
    using link_enter_configured_logs_prefix[OF cf] by blast
  have "(LOG_INFO, ''link configured'') \<in> set (drop (length (logs w)) (logs w'))"
    using a x y by simp
  with rh l True l3 show ?thesis by (simp add: w1_def)
next
  case False
  show ?thesis
    using assms False
    by (auto simp add: route_handler_def Let_def)
qed

theorem route_handler_enters_configured_witness:
  "0 < route_messages (lnk (ex_world\<lparr>lnk := ex_link\<lparr>state := LINK_STATE_SETTING_ROUTES,
                                                      route_messages := 1\<rparr>\<rparr>)) \<and>
   (\<exists>w'. route_handler ex_message
            (ex_world\<lparr>lnk := ex_link\<lparr>state := LINK_STATE_SETTING_ROUTES,
                                      route_messages := 1\<rparr>\<rparr>) = Some (1, w') \<and>
         route_messages (lnk w') = 0 \<and> state (lnk w') = LINK_STATE_CONFIGURED)"
  using route_handler_enters_configured
          [of "ex_world\<lparr>lnk := ex_link\<lparr>state := LINK_STATE_SETTING_ROUTES,
                                         route_messages := 1\<rparr>\<rparr>" ex_message]
  by auto

section \<open>Claim C5: a critical lease is never reconfigured\<close>

text \<open>
  Claim C5. When the profile sets \<open>dhcp_critical\<close>, the DHCP events EXPIRED, STOP and
  IP_CHANGE leave the link as it is: dhcp_handler returns with the Link unchanged (state,
  lease and counters), no call is made to any collaborator (so no address or route is
  withdrawn and no kernel request is submitted), no completion is owed anew and no file
  is touched. Only a log line is written.
\<close>

theorem dhcp_critical_ignored:
  assumes "network (lnk w) = Some net" and "dhcp_critical net"
    and "ev = DHCP_EVENT_EXPIRED \<or> ev = DHCP_EVENT_STOP \<or> ev = DHCP_EVENT_IP_CHANGE"
  shows "\<exists>w'. dhcp_handler ev w = Some w' \<and> lnk w' = lnk w \<and> calls w' = calls w \<and>
           pending w' = pending w \<and> fsys w' = fsys w"
  using assms by (auto simp add: dhcp_handler_def dhcp_handler_lost_def)

theorem dhcp_critical_ignored_witness:
  "dhcp_critical (ex_network\<lparr>dhcp_critical := True\<rparr>) \<and>
   (\<exists>w'. dhcp_handler DHCP_EVENT_STOP
      (ex_world\<lparr>lnk := ex_link\<lparr>network := Some (ex_network\<lparr>dhcp_critical := True\<rparr>),
                              state := LINK_STATE_CONFIGURED,
                              dhcp_lease := Some ex_lease\<rparr>\<rparr>) = Some w' \<and>
      state (lnk w') = LINK_STATE_CONFIGURED \<and> dhcp_lease (lnk w') = Some ex_lease \<and>
      calls w' = [] \<and> pending w' = [])"
  using dhcp_critical_ignored
     [of "ex_world\<lparr>lnk := ex_link\<lparr>network := Some (ex_network\<lparr>dhcp_critical := True\<rparr>),
                              state := LINK_STATE_CONFIGURED,
                              dhcp_lease := Some ex_lease\<rparr>\<rparr>"
         "ex_network\<lparr>dhcp_critical := True\<rparr>" DHCP_EVENT_STOP]
  by (auto simp add: ex_world_def)

section \<open>Claim C6: a failed address or route completion\<close>

text \<open>
  Claim C6 says that an address or route configure completion reporting an errno other
  than EEXIST moves the link to FAILED. The handlers do not: with errno EINVAL the
  address handler stays in SETTING_ADDRESSES and the route handler in SETTING_ROUTES.
\<close>

theorem completion_error_counterexample:
  "msg_errno (ex_message\<lparr>msg_errno := - EINVAL\<rparr>) < 0 \<and>
   msg_errno (ex_message\<lparr>msg_errno := - EINVAL\<rparr>) \<noteq> - EEXIST \<and>
   (\<exists>w'. address_handler (ex_message\<lparr>msg_errno := - EINVAL\<rparr>)
            (ex_world\<lparr>lnk := ex_link\<lparr>state := LINK_STATE_SETTING_ADDRESSES,
                                      addr_messages := 2\<rparr>\<rparr>) = Some (1, w') \<and>
          state (lnk w') = LINK_STATE_SETTING_ADDRESSES) \<and>
   (\<exists>w'. route_handler (ex_message\<lparr>msg_errno := - EINVAL\<rparr>)
            (ex_world\<lparr>lnk := ex_link\<lparr>state := LINK_STATE_SETTING_ROUTES,
                                      route_messages := 2\<rparr>\<rparr>) = Some (1, w') \<and>
          state (lnk w') = LINK_STATE_SETTING_ROUTES)"
  by (simp add: address_handler_def route_handler_def ex_link_def ex_world_def EINVAL_def
        EEXIST_def Let_def)

text \<open>
  Claim C6 as amended, for an address or route configure completion that reports an
  errno other than EEXIST. On a link that is not FAILED the handler logs a warning and
  then does exactly what it does for a successful completion: its outcome is the outcome
  of the handler run on a message with errno 0 once the warning is logged; the route
  handler does not leave the link in FAILED, and the address handler leaves the state as
  it is unless the acknowledgment is the last one outstanding (then it goes on to the
  routes, as after a successful completion). On a link that is FAILED already the
  handler only decrements its counter: nothing is logged and the state stays FAILED.
\<close>

theorem completion_error_only_logged:
  assumes "msg_errno m < 0" and "msg_errno m \<noteq> - EEXIST"
  shows "(state (lnk w) \<noteq> LINK_STATE_FAILED \<longrightarrow>
            address_handler m w =
              address_handler (m\<lparr>msg_errno := 0\<rparr>)
                (log_link LOG_WARNING ''could not set address'' w) \<and>
            route_handler m w =
              route_handler (m\<lparr>msg_errno := 0\<rparr>)
                (log_link LOG_WARNING ''could not set route'' w) \<and>
            (\<forall>r w'. route_handler m w = Some (r, w') \<longrightarrow>
                     state (lnk w') \<noteq> LINK_STATE_FAILED) \<and>
            (\<forall>r w'. address_handler m w = Some (r, w') \<longrightarrow> addr_messages (lnk w) \<noteq> 1 \<longrightarrow>
                     state (lnk w') = state (lnk w))) \<and>
         (state (lnk w) = LINK_STATE_FAILED \<longrightarrow>
            address_handler m w =
              (if ifname (lnk w) \<noteq> None \<and> 0 < addr_messages (lnk w)
               then Some (1, w\<lparr>lnk := (lnk w)\<lparr>addr_messages := addr_messages (lnk w) - 1\<rparr>\<rparr>)
               else None) \<and>
            route_handler m w =
              (if 0 < route_messages (lnk w)
               then Some (1, w\<lparr>lnk := (lnk w)\<lparr>route_messages := route_messages (lnk w) - 1\<rparr>\<rparr>)
               else None))"
proof -
  have a: "address_handler m w =
           address_handler (m\<lparr>msg_errno := 0\<rparr>) (log_link LOG_WARNING ''could not set address'' w)"
    if "state (lnk w) \<noteq> LINK_STATE_FAILED"
    using assms that by (simp add: address_handler_def log_link_def Let_def)
  have b: "route_handler m w =
           route_handler (m\<lparr>msg_errno := 0\<rparr>) (log_link LOG_WARNING ''could not set route'' w)"
    if "state (lnk w) \<noteq> LINK_STATE_FAILED"
    using assms that by (simp add: route_handler_def log_link_def Let_def)
  have c: "state (lnk w') \<noteq> LINK_STATE_FAILED"
    if "state (lnk w) \<noteq> LINK_STATE_FAILED" "route_handler m w = Some (r, w')" for r w'
    using assms that
    by (auto simp add: route_handler_def Let_def link_enter_configured_Some
          split: if_splits option.splits)
  have d: "state (lnk w') = state (lnk w)"
    if "state (lnk w) \<noteq> LINK_STATE_FAILED" "address_handler m w = Some (r, w')"
       "addr_messages (lnk w) \<noteq> 1" for r w'
    using assms that
    by (auto simp add: address_handler_def Let_def split: if_splits option.splits)
  have e: "address_handler m w =
              (if ifname (lnk w) \<noteq> None \<and> 0 < addr_messages (lnk w)
               then Some (1, w\<lparr>lnk := (lnk w)\<lparr>addr_messages := addr_messages (lnk w) - 1\<rparr>\<rparr>)
               else None)"
    if "state (lnk w) = LINK_STATE_FAILED"
    using that by (simp add: address_handler_def Let_def)
  have f: "route_handler m w =
              (if 0 < route_messages (lnk w)
               then Some (1, w\<lparr>lnk := (lnk w)\<lparr>route_messages := route_messages (lnk w) - 1\<rparr>\<rparr>)
               else None)"
    if "state (lnk w) = LINK_STATE_FAILED"
    using that by (simp add: route_handler_def Let_def)
  show ?thesis
  proof (intro conjI impI allI)
    assume "state (lnk w) \<noteq> LINK_STATE_FAILED"
    then show "address_handler m w =
           address_handler (m\<lparr>msg_errno := 0\<rparr>) (log_link LOG_WARNING ''could not set address'' w)"
      by (rule a)
  next
    assume "state (lnk w) \<noteq> LINK_STATE_FAILED"
    then show "route_handler m w =
           route_handler (m\<lparr>msg_errno := 0\<rparr>) (log_link LOG_WARNING ''could not set route'' w)"
      by (rule b)
  next
    fix r w'
    assume "state (lnk w) \<noteq> LINK_STATE_FAILED" "route_handler m w = Some (r, w')"
    then show "state (lnk w') \<noteq> LINK_STATE_FAILED" by (rule c)
  next
    fix r w'
    assume "state (lnk w) \<noteq> LINK_STATE_FAILED" "address_handler m w = Some (r, w')"
      "addr_messages (lnk w) \<noteq> 1"
    then show "state (lnk w') = state (lnk w)" by (rule d)
  next
    assume "state (lnk w) = LINK_STATE_FAILED"
    then show "address_handler m w =
              (if ifname (lnk w) \<noteq> None \<and> 0 < addr_messages (lnk w)
               then Some (1, w\<lparr>lnk := (lnk w)\<lparr>addr_messages := addr_messages (lnk w) - 1\<rparr>\<rparr>)
               else None)"
      by (rule e)
  next
    assume "state (lnk w) = LINK_STATE_FAILED"
    then show "route_handler m w =
              (if 0 < route_messages (lnk w)
               then Some (1, w\<lparr>lnk := (lnk w)\<lparr>route_messages := route_messages (lnk w) - 1\<rparr>\<rparr>)
               else None)"
      by (rule f)
  qed
qed

theorem completion_error_only_logged_witness:
  "msg_errno (ex_message\<lparr>msg_errno := - EINVAL\<rparr>) < 0 \<and>
   msg_errno (ex_message\<lparr>msg_errno := - EINVAL\<rparr>) \<noteq> - EEXIST \<and>
   address_handler (ex_message\<lparr>msg_errno := - EINVAL\<rparr>)
     (ex_world\<lparr>lnk := ex_link\<lparr>state := LINK_STATE_SETTING_ADDRESSES, addr_messages := 2\<rparr>\<rparr>) =
   address_handler (ex_message\<lparr>msg_errno := 0\<rparr>)
     (log_link LOG_WARNING ''could not set address''
       (ex_world\<lparr>lnk := ex_link\<lparr>state := LINK_STATE_SETTING_ADDRESSES, addr_messages := 2\<rparr>\<rparr>)) \<and>
   (\<exists>w'. address_handler (ex_message\<lparr>msg_errno := - EINVAL\<rparr>)
     (ex_world\<lparr>lnk := ex_link\<lparr>state := LINK_STATE_SETTING_ADDRESSES, addr_messages := 2\<rparr>\<rparr>) =
       Some (1, w') \<and> state (lnk w') = LINK_STATE_SETTING_ADDRESSES \<and>
       logs w' = [(LOG_WARNING, ''could not set address'')]) \<and>
   (\<exists>w'. address_handler (ex_message\<lparr>msg_errno := - EINVAL\<rparr>)
     (ex_world\<lparr>lnk := ex_link\<lparr>state := LINK_STATE_FAILED, addr_messages := 2\<rparr>\<rparr>) =
       Some (1, w') \<and> state (lnk w') = LINK_STATE_FAILED \<and>
       addr_messages (lnk w') = 1 \<and> logs w' = [])"
proof -
  let ?m = "ex_message\<lparr>msg_errno := - EINVAL\<rparr>"
  let ?w1 = "ex_world\<lparr>lnk := ex_link\<lparr>state := LINK_STATE_SETTING_ADDRESSES, addr_messages := 2\<rparr>\<rparr>"
  let ?w2 = "ex_world\<lparr>lnk := ex_link\<lparr>state := LINK_STATE_FAILED, addr_messages := 2\<rparr>\<rparr>"
  have h1: "msg_errno ?m < 0" and h2: "msg_errno ?m \<noteq> - EEXIST"
    by (simp_all add: EINVAL_def EEXIST_def)
  have s1: "state (lnk ?w1) \<noteq> LINK_STATE_FAILED" and s2: "state (lnk ?w2) = LINK_STATE_FAILED"
    by simp_all
  have eq: "address_handler ?m ?w1 =
            address_handler (?m\<lparr>msg_errno := 0\<rparr>) (log_link LOG_WARNING ''could not set address'' ?w1)"
    using completion_error_only_logged[OF h1 h2, of ?w1] s1 by blast
  have eq': "address_handler ?m ?w1 =
             address_handler (ex_message\<lparr>msg_errno := 0\<rparr>)
               (log_link LOG_WARNING ''could not set address'' ?w1)"
    unfolding eq by simp
  have ex1: "\<exists>w'. address_handler ?m ?w1 = Some (1, w') \<and>
               state (lnk w') = LINK_STATE_SETTING_ADDRESSES \<and>
               logs w' = [(LOG_WARNING, ''could not set address'')]"
    by (simp add: address_handler_def ex_link_def ex_world_def EINVAL_def EEXIST_def Let_def
          log_link_def)
  have f: "address_handler ?m ?w2 =
             (if ifname (lnk ?w2) \<noteq> None \<and> 0 < addr_messages (lnk ?w2)
              then Some (1, ?w2\<lparr>lnk := (lnk ?w2)\<lparr>addr_messages := addr_messages (lnk ?w2) - 1\<rparr>\<rparr>)
              else None)"
    using completion_error_only_logged[OF h1 h2, of ?w2] s2 by blast
  have ex2: "\<exists>w'. address_handler ?m ?w2 = Some (1, w') \<and> state (lnk w') = LINK_STATE_FAILED \<and>
               addr_messages (lnk w') = 1 \<and> logs w' = []"
    unfolding f by (simp add: ex_link_def ex_world_def)
  show ?thesis by (intro conjI h1 h2 eq' ex1 ex2)
qed

section \<open>Claim C10: link_new rejects what is not a new link\<close>

text \<open>
  Claim C10. For a message whose type is not RTM_NEWLINK, and for a message whose
  interface index is zero or negative, link_new returns -EINVAL and the manager, with its
  registry of links, is what it was: nothing is inserted.
\<close>

theorem link_new_rejects:
  assumes "msg_type message = Got t"
    and "t \<noteq> RTM_NEWLINK \<or> (\<exists>i. msg_ifindex message = Got i \<and> i \<le> 0)"
  shows "link_new m message rs = (- EINVAL, None, m)"
  using assms by (auto simp add: link_new_def)

theorem link_new_rejects_witness:
  "link_new (mgr ex_world) (ex_message\<lparr>msg_type := Got 17\<rparr>) [] = (- EINVAL, None, mgr ex_world) \<and>
   link_new (mgr ex_world) (ex_message\<lparr>msg_ifindex := Got 0\<rparr>) [] = (- EINVAL, None, mgr ex_world) \<and>
   (\<exists>l m'. link_new (mgr ex_world) ex_message [] = (0, Some l, m') \<and> links m' 7 = Some l)"
  using link_new_rejects [of "ex_message\<lparr>msg_type := Got 17\<rparr>" 17 "mgr ex_world" "[]"]
        link_new_rejects [of "ex_message\<lparr>msg_ifindex := Got 0\<rparr>" RTM_NEWLINK "mgr ex_world" "[]"]
  by (simp add: ex_message_def RTM_NEWLINK_def link_new_def pop_result_def ex_world_def Let_def)

section \<open>Runs without failing calls\<close>

lemma all_succeed_upd [simp]:
  "all_succeed (w\<lparr>lnk := l\<rparr>) = all_succeed w"
  "all_succeed (log_link lv s w) = all_succeed w"
  "all_succeed (fprintf p s w) = all_succeed w"
  by (simp_all add: all_succeed_def)

lemma next_result_succeed:
  "all_succeed w \<Longrightarrow> 0 \<le> fst (next_result w) \<and> all_succeed (snd (next_result w))"
  by (cases "results w") (simp_all add: all_succeed_def next_result_def)

lemma call_sync_succeed:
  "all_succeed w \<Longrightarrow> 0 \<le> fst (call_sync c w) \<and> all_succeed (snd (call_sync c w))"
  by (cases "results w") (simp_all add: all_succeed_def call_sync_def next_result_def)

lemma call_async_succeed:
  "all_succeed w \<Longrightarrow> 0 \<le> fst (call_async c h w) \<and> all_succeed (snd (call_async c h w))"
  by (cases "results w") (simp_all add: all_succeed_def call_async_def next_result_def)

lemma call_async_calls:
  "calls (snd (call_async c h w)) = calls w @ [(c, fst (call_async c h w))]"
  by (simp add: call_async_def case_prod_beta)

lemma call_sync_calls:
  "calls (snd (call_sync c w)) = calls w @ [(c, fst (call_sync c w))]"
  by (simp add: call_sync_def case_prod_beta)

lemma set_addresses_static_ok:
  "all_succeed w \<Longrightarrow>
   \<exists>w'. set_addresses_static ads w = (None, w') \<and> all_succeed w' \<and>
        map fst (calls w') = map fst (calls w) @ map Address_configure ads \<and>
        lnk w' = (lnk w)\<lparr>addr_messages := addr_messages (lnk w) + of_nat (length ads)\<rparr> \<and>
        cfg w' = cfg w"
proof (induction ads arbitrary: w)
  case Nil
  then show ?case by simp
next
  case (Cons ad ads)
  let ?c = "call_async (Address_configure ad) H_address_handler w"
  let ?w1 = "(snd ?c)\<lparr>lnk := (lnk (snd ?c))\<lparr>addr_messages := addr_messages (lnk (snd ?c)) + 1\<rparr>\<rparr>"
  from Cons.prems have ok: "0 \<le> fst ?c" and s1: "all_succeed ?w1"
    using call_async_succeed[of w "Address_configure ad" H_address_handler] by simp_all
  from Cons.IH[OF s1] obtain w' where
    w': "set_addresses_static ads ?w1 = (None, w')" "all_succeed w'"
        "map fst (calls w') = map fst (calls ?w1) @ map Address_configure ads"
        "lnk w' = (lnk ?w1)\<lparr>addr_messages := addr_messages (lnk ?w1) + of_nat (length ads)\<rparr>"
        "cfg w' = cfg ?w1"
    by blast
  have "set_addresses_static (ad # ads) w = (None, w')"
    using ok w'(1) by (simp add: case_prod_beta Let_def)
  then show ?case using w' by (simp add: call_async_calls)
qed

lemma set_routes_static_ok:
  "all_succeed w \<Longrightarrow>
   \<exists>w'. set_routes_static rts w = (None, w') \<and> all_succeed w' \<and>
        map fst (calls w') = map fst (calls w) @ map Route_configure rts \<and>
        lnk w' = (lnk w)\<lparr>route_messages := route_messages (lnk w) + of_nat (length rts)\<rparr> \<and>
        cfg w' = cfg w"
proof (induction rts arbitrary: w)
  case Nil
  then show ?case by simp
next
  case (Cons rt rts)
  let ?c = "call_async (Route_configure rt) H_route_handler w"
  let ?w1 = "(snd ?c)\<lparr>lnk := (lnk (snd ?c))\<lparr>route_messages := route_messages (lnk (snd ?c)) + 1\<rparr>\<rparr>"
  from Cons.prems have ok: "0 \<le> fst ?c" and s1: "all_succeed ?w1"
    using call_async_succeed[of w "Route_configure rt" H_route_handler] by simp_all
  from Cons.IH[OF s1] obtain w' where
    w': "set_routes_static rts ?w1 = (None, w')" "all_succeed w'"
        "map fst (calls w') = map fst (calls ?w1) @ map Route_configure rts"
        "lnk w' = (lnk ?w1)\<lparr>route_messages := route_messages (lnk ?w1) + of_nat (length rts)\<rparr>"
        "cfg w' = cfg ?w1"
    by blast
  have "set_routes_static (rt # rts) w = (None, w')"
    using ok w'(1) by (simp add: case_prod_beta Let_def)
  then show ?case using w' by (simp add: call_async_calls)
qed

section \<open>Claim C3: the host route to the gateway comes first\<close>

text \<open>
  Claim C3. For a link that holds a DHCP lease with gateway g, link_enter_set_routes
  (entered from SETTING_ADDRESSES, no request failing) submits, after the static routes,
  exactly two routes that come from the lease: first the host route (destination g,
  prefix length 32, scope LINK), then the default route whose gateway \<open>in_addr\<close> is g.
\<close>

theorem dhcp_routes_host_first:
  assumes net: "network (lnk w) = Some net"
    and st: "state (lnk w) = LINK_STATE_SETTING_ADDRESSES"
    and lease: "dhcp_lease (lnk w) = Some lease"
    and g: "lease_router lease = Got g"
    and ok: "all_succeed w"
  shows "\<exists>w'. link_enter_set_routes w = Some (0, w') \<and>
           map fst (calls w') = map fst (calls w) @
             map Route_configure (static_routes net) @
             [Route_configure ((new_route (cfg w))
                \<lparr>rt_family := AF_INET, dst_addr := g, dst_prefixlen := 32,
                 rt_scope := RT_SCOPE_LINK\<rparr>),
              Route_configure ((new_route (cfg w))
                \<lparr>rt_family := AF_INET, rt_in_addr := g\<rparr>)]"
proof -
  let ?w1 = "log_link LOG_DEBUG ''setting routes''
               (w\<lparr>lnk := (lnk w)\<lparr>state := LINK_STATE_SETTING_ROUTES\<rparr>\<rparr>)"
  have s1: "all_succeed ?w1" using ok by simp
  from set_routes_static_ok[OF s1, of "static_routes net"] obtain w2 where
    w2: "set_routes_static (static_routes net) ?w1 = (None, w2)" "all_succeed w2"
        "map fst (calls w2) = map fst (calls ?w1) @ map Route_configure (static_routes net)"
        "lnk w2 = (lnk ?w1)\<lparr>route_messages := route_messages (lnk ?w1) + of_nat (length (static_routes net))\<rparr>"
        "cfg w2 = cfg ?w1"
    by blast
  have l2: "dhcp_lease (lnk w2) = Some lease" using w2(4) lease by simp
  have ll: "set_routes_ipv4ll w2 = (None, w2)"
    using l2 by (simp add: set_routes_ipv4ll_def split: option.splits)
  let ?gw = "(new_route (cfg w))
                \<lparr>rt_family := AF_INET, dst_addr := g, dst_prefixlen := 32,
                 rt_scope := RT_SCOPE_LINK\<rparr>"
  let ?rt = "(new_route (cfg w))\<lparr>rt_family := AF_INET, rt_in_addr := g\<rparr>"
  let ?n1 = "next_result w2"
  let ?n2 = "next_result (snd ?n1)"
  let ?c3 = "call_async (Route_configure ?gw) H_route_handler (snd ?n2)"
  let ?w4 = "(snd ?c3)\<lparr>lnk := (lnk (snd ?c3))\<lparr>route_messages := route_messages (lnk (snd ?c3)) + 1\<rparr>\<rparr>"
  let ?c5 = "call_async (Route_configure ?rt) H_route_handler ?w4"
  let ?w' = "(snd ?c5)\<lparr>lnk := (lnk (snd ?c5))\<lparr>route_messages := route_messages (lnk (snd ?c5)) + 1\<rparr>\<rparr>"
  have n1: "0 \<le> fst ?n1" "all_succeed (snd ?n1)" using next_result_succeed[OF w2(2)] by simp_all
  have n2: "0 \<le> fst ?n2" "all_succeed (snd ?n2)" using next_result_succeed[OF n1(2)] by simp_all
  have c3: "0 \<le> fst ?c3" "all_succeed ?w4" using call_async_succeed[OF n2(2)] by simp_all
  have c5: "0 \<le> fst ?c5" using call_async_succeed[OF c3(2)] by simp
  have dh: "set_routes_dhcp w2 = (None, ?w')"
    using l2 g n1 n2 c3 c5 w2(5)
    by (simp add: set_routes_dhcp_def case_prod_beta Let_def)
  have "link_enter_set_routes w = Some (0, ?w')"
    using net st lease w2(1) ll dh by (simp add: link_enter_set_routes_def Let_def)
  moreover have "map fst (calls ?w') = map fst (calls w) @
             map Route_configure (static_routes net) @ [Route_configure ?gw, Route_configure ?rt]"
    using w2(3) by (simp add: call_async_calls)
  ultimately show ?thesis by blast
qed

theorem dhcp_routes_host_first_witness:
  "all_succeed (ex_world\<lparr>lnk := ex_link\<lparr>state := LINK_STATE_SETTING_ADDRESSES,
                                           dhcp_lease := Some ex_lease\<rparr>\<rparr>) \<and>
   (\<exists>w'. link_enter_set_routes
            (ex_world\<lparr>lnk := ex_link\<lparr>state := LINK_STATE_SETTING_ADDRESSES,
                                      dhcp_lease := Some ex_lease\<rparr>\<rparr>) = Some (0, w') \<and>
      map fst (calls w') =
        [Route_configure \<lparr>rt_family = AF_INET, dst_addr = 0xC0A80101, dst_prefixlen = 32,
           rt_scope = RT_SCOPE_LINK, metrics = 0, rt_in_addr = 0\<rparr>,
         Route_configure \<lparr>rt_family = AF_INET, dst_addr = 0, dst_prefixlen = 0,
           rt_scope = 0, metrics = 0, rt_in_addr = 0xC0A80101\<rparr>])"
proof -
  let ?w = "ex_world\<lparr>lnk := ex_link\<lparr>state := LINK_STATE_SETTING_ADDRESSES,
                                     dhcp_lease := Some ex_lease\<rparr>\<rparr>"
  have ok0: "all_succeed ex_world" by (simp add: all_succeed_def ex_world_def)
  then have ok: "all_succeed ?w" by simp
  have "\<exists>w'. link_enter_set_routes ?w = Some (0, w') \<and>
           map fst (calls w') = map fst (calls ?w) @
             map Route_configure (static_routes ex_network) @
             [Route_configure ((new_route (cfg ?w))
                \<lparr>rt_family := AF_INET, dst_addr := 0xC0A80101, dst_prefixlen := 32,
                 rt_scope := RT_SCOPE_LINK\<rparr>),
              Route_configure ((new_route (cfg ?w))
                \<lparr>rt_family := AF_INET, rt_in_addr := 0xC0A80101\<rparr>)]"
    by (rule dhcp_routes_host_first[where lease = ex_lease])
       (simp_all add: ok0 ex_link_def ex_lease_def)
  then show ?thesis
    using ok
    by (simp add: ex_world_def ex_network_def ex_params_def ex_route_def)
qed

section \<open>Claim C4: the leased address and its broadcast address\<close>

text \<open>
  Claim C4. For a link that holds a DHCP lease with address a and netmask m,
  link_enter_set_addresses (no request failing) submits, after the static addresses, the
  address a whose prefix length is \<open>net_netmask_to_prefixlen\<close> of m and whose broadcast
  address is \<open>a OR NOT m\<close>.
\<close>

theorem dhcp_address_broadcast:
  assumes net: "network (lnk w) = Some net" and lease: "dhcp_lease (lnk w) = Some lease"
    and a: "lease_address lease = Got a" and nm: "lease_netmask lease = Got nm"
    and ok: "all_succeed w"
  shows "\<exists>w'. link_enter_set_addresses w = Some (0, w') \<and>
           map fst (calls w') = map fst (calls w) @
             map Address_configure (static_addresses net) @
             [Address_configure ((new_address (cfg w))
                \<lparr>family := AF_INET, in_addr := a,
                 prefixlen := net_netmask_to_prefixlen (cfg w) nm,
                 broadcast := a OR NOT nm\<rparr>)]"
proof -
  let ?w1 = "log_link LOG_DEBUG ''setting addresses''
               (w\<lparr>lnk := (lnk w)\<lparr>state := LINK_STATE_SETTING_ADDRESSES\<rparr>\<rparr>)"
  have s1: "all_succeed ?w1" using ok by simp
  from set_addresses_static_ok[OF s1, of "static_addresses net"] obtain w2 where
    w2: "set_addresses_static (static_addresses net) ?w1 = (None, w2)" "all_succeed w2"
        "map fst (calls w2) = map fst (calls ?w1) @ map Address_configure (static_addresses net)"
        "lnk w2 = (lnk ?w1)\<lparr>addr_messages := addr_messages (lnk ?w1) + of_nat (length (static_addresses net))\<rparr>"
        "cfg w2 = cfg ?w1"
    by blast
  have l2: "dhcp_lease (lnk w2) = Some lease" using w2(4) lease by simp
  have ll: "set_addresses_ipv4ll w2 = (None, w2)"
    using l2 by (simp add: set_addresses_ipv4ll_def split: option.splits)
  let ?n1 = "next_result w2"
  let ?ad = "(new_address (cfg w))
                \<lparr>family := AF_INET, in_addr := a,
                 prefixlen := net_netmask_to_prefixlen (cfg w) nm,
                 broadcast := a OR NOT nm\<rparr>"
  let ?c = "call_async (Address_configure ?ad) H_address_handler (snd ?n1)"
  have n1: "0 \<le> fst ?n1" "all_succeed (snd ?n1)" using next_result_succeed[OF w2(2)] by simp_all
  have c: "0 \<le> fst ?c" using call_async_succeed[OF n1(2)] by simp
  let ?w' = "(snd ?c)\<lparr>lnk := (lnk (snd ?c))\<lparr>addr_messages := addr_messages (lnk (snd ?c)) + 1\<rparr>\<rparr>"
  have dh: "set_addresses_dhcp w2 = (None, ?w')"
    using l2 a nm n1 c w2(5)
    by (simp add: set_addresses_dhcp_def case_prod_beta Let_def)
  have "link_enter_set_addresses w = Some (0, ?w')"
    using net lease w2(1) ll dh by (simp add: link_enter_set_addresses_def Let_def)
  moreover have "map fst (calls ?w') = map fst (calls w) @
             map Address_configure (static_addresses net) @ [Address_configure ?ad]"
    using w2(3) by (simp add: call_async_calls)
  ultimately show ?thesis by blast
qed

theorem dhcp_address_broadcast_witness:
  "all_succeed (ex_world\<lparr>lnk := ex_link\<lparr>dhcp_lease := Some ex_lease\<rparr>\<rparr>) \<and>
   (\<exists>w'. link_enter_set_addresses (ex_world\<lparr>lnk := ex_link\<lparr>dhcp_lease := Some ex_lease\<rparr>\<rparr>) =
            Some (0, w') \<and>
      map fst (calls w') =
        [Address_configure \<lparr>family = AF_INET, in_addr = 0xC0A80132, prefixlen = 24,
           broadcast = 0xC0A801FF, scope = 0, ifa_prefered = CACHE_INFO_INFINITY_LIFE_TIME\<rparr>])"
proof -
  let ?w = "ex_world\<lparr>lnk := ex_link\<lparr>dhcp_lease := Some ex_lease\<rparr>\<rparr>"
  have ok0: "all_succeed ex_world" by (simp add: all_succeed_def ex_world_def)
  then have ok: "all_succeed ?w" by simp
  have b: "(0xC0A80132 :: 32 word) OR NOT 0xFFFFFF00 = 0xC0A801FF" by simp
  have "\<exists>w'. link_enter_set_addresses ?w = Some (0, w') \<and>
           map fst (calls w') = map fst (calls ?w) @
             map Address_configure (static_addresses ex_network) @
             [Address_configure ((new_address (cfg ?w))
                \<lparr>family := AF_INET, in_addr := 0xC0A80132,
                 prefixlen := net_netmask_to_prefixlen (cfg ?w) 0xFFFFFF00,
                 broadcast := 0xC0A80132 OR NOT 0xFFFFFF00\<rparr>)]"
    by (rule dhcp_address_broadcast[where lease = ex_lease])
       (simp_all add: ok0 ex_link_def ex_lease_def)
  then show ?thesis
    unfolding b using ok
    by (simp add: ex_world_def ex_network_def ex_params_def ex_address_def)
qed

section \<open>Claim C7: arbitration between DHCP and IPv4LL\<close>

lemma ipv4ll_address_update_ok:
  assumes "ipv4ll (lnk w) = Some ll" and "ll_address ll = Got a" and "all_succeed w"
  shows "\<exists>w'. ipv4ll_address_update deprecate w = Some (0, w') \<and>
           map fst (calls w') = map fst (calls w) @
             [Address_update ((new_address (cfg w))
                \<lparr>family := AF_INET, in_addr := a, prefixlen := 16, scope := RT_SCOPE_LINK,
                 ifa_prefered := (if deprecate then 0 else CACHE_INFO_INFINITY_LIFE_TIME),
                 broadcast := a OR drop_bit 16 (0xffffffff :: 32 word)\<rparr>)]"
proof -
  let ?w0 = "log_link LOG_DEBUG (if deprecate then ''IPv4 link-local deprecate''
                           else ''IPv4 link-local approve'') w"
  have "all_succeed ?w0" using assms(3) by simp
  then have "0 \<le> fst (next_result ?w0)" using next_result_succeed by blast
  then show ?thesis
    using assms(1,2)
    by (simp add: ipv4ll_address_update_def case_prod_beta Let_def call_async_calls)
qed

text \<open>
  Claim C7. The link is managed and not FAILED; \<open>w1\<close> is the world once the lease has
  been taken over (IP_ACQUIRE) or given up (EXPIRED), with the IPv4LL client \<open>ll\<close> present
  and no later call failing. On IP_ACQUIRE: when the client is bound to an address a, the
  one call that follows is an address update of a/16, scope LINK, with preferred lifetime
  0 (the address is deprecated, not dropped); when it is not bound, the one call that
  follows stops the client. On EXPIRED, with a profile that enables IPv4LL and is not
  critical: when the client is not running, the one call that follows starts it; when it
  is running and bound to a, the one call that follows is the address update of a with
  the infinite preferred lifetime.
\<close>

theorem dhcp_ipv4ll_arbitration:
  assumes net: "network (lnk w) = Some net" and nf: "state (lnk w) \<noteq> LINK_STATE_FAILED"
    and ll: "ipv4ll (lnk w1) = Some ll" and ok: "all_succeed w1" and r: "0 \<le> r"
  shows "(dhcp_lease_acquired (dhcp_client (lnk w)) w = Some (r, w1) \<longrightarrow>
           (\<forall>a. ll_address ll = Got a \<longrightarrow>
              (\<exists>w'. dhcp_handler DHCP_EVENT_IP_ACQUIRE w = Some w' \<and>
                 map fst (calls w') = map fst (calls w1) @
                   [Address_update ((new_address (cfg w1))
                      \<lparr>family := AF_INET, in_addr := a, prefixlen := 16, scope := RT_SCOPE_LINK,
                       ifa_prefered := 0,
                       broadcast := a OR drop_bit 16 (0xffffffff :: 32 word)\<rparr>)])) \<and>
           (\<forall>e. ll_address ll = Failed e \<longrightarrow>
              (\<exists>w'. dhcp_handler DHCP_EVENT_IP_ACQUIRE w = Some w' \<and>
                 map fst (calls w') = map fst (calls w1) @ [Ipv4ll_stop]))) \<and>
         (\<not> dhcp_critical net \<and> net_ipv4ll net \<and>
          (if dhcp_lease (lnk w) \<noteq> None then dhcp_lease_lost w else Some (0, w)) = Some (r, w1) \<longrightarrow>
           (\<not> ll_running ll \<longrightarrow>
              (\<exists>w'. dhcp_handler DHCP_EVENT_EXPIRED w = Some w' \<and>
                 map fst (calls w') = map fst (calls w1) @ [Ipv4ll_start])) \<and>
           (\<forall>a. ll_running ll \<and> ll_address ll = Got a \<longrightarrow>
              (\<exists>w'. dhcp_handler DHCP_EVENT_EXPIRED w = Some w' \<and>
                 map fst (calls w') = map fst (calls w1) @
                   [Address_update ((new_address (cfg w1))
                      \<lparr>family := AF_INET, in_addr := a, prefixlen := 16, scope := RT_SCOPE_LINK,
                       ifa_prefered := CACHE_INFO_INFINITY_LIFE_TIME,
                       broadcast := a OR drop_bit 16 (0xffffffff :: 32 word)\<rparr>)])))"
proof -
  have upd: "ll_address ll = Got a \<Longrightarrow>
      \<exists>w'. ipv4ll_address_update d w1 = Some (0, w') \<and>
           map fst (calls w') = map fst (calls w1) @
             [Address_update ((new_address (cfg w1))
                \<lparr>family := AF_INET, in_addr := a, prefixlen := 16, scope := RT_SCOPE_LINK,
                 ifa_prefered := (if d then 0 else CACHE_INFO_INFINITY_LIFE_TIME),
                 broadcast := a OR drop_bit 16 (0xffffffff :: 32 word)\<rparr>)]" for a d
    using ipv4ll_address_update_ok[OF ll _ ok] by blast
  have stop: "0 \<le> fst (call_sync Ipv4ll_stop w1)" and start: "0 \<le> fst (call_sync Ipv4ll_start w1)"
    using call_sync_succeed[OF ok] by simp_all
  have A1: "dhcp_handler DHCP_EVENT_IP_ACQUIRE w = Some w' \<and>
            map fst (calls w') = map fst (calls w1) @ [Address_update ad]"
    if "dhcp_lease_acquired (dhcp_client (lnk w)) w = Some (r, w1)"
       "ll_address ll = Got a"
       "ipv4ll_address_update True w1 = Some (0, w')"
       "map fst (calls w') = map fst (calls w1) @ [Address_update ad]" for a w' ad
    using that net nf ll r
    by (simp add: dhcp_handler_def ipv4ll_is_bound_def)
  have A2: "\<exists>w'. dhcp_handler DHCP_EVENT_IP_ACQUIRE w = Some w' \<and>
            map fst (calls w') = map fst (calls w1) @ [Ipv4ll_stop]"
    if "dhcp_lease_acquired (dhcp_client (lnk w)) w = Some (r, w1)"
       "ll_address ll = Failed e" for e
    using that net nf ll r stop
    by (simp add: dhcp_handler_def ipv4ll_is_bound_def case_prod_beta call_sync_calls)
  have B1: "\<exists>w'. dhcp_handler DHCP_EVENT_EXPIRED w = Some w' \<and>
            map fst (calls w') = map fst (calls w1) @ [Ipv4ll_start]"
    if "\<not> dhcp_critical net" "net_ipv4ll net"
       "(if dhcp_lease (lnk w) \<noteq> None then dhcp_lease_lost w else Some (0, w)) = Some (r, w1)"
       "\<not> ll_running ll"
    using that net nf ll r start
    by (simp add: dhcp_handler_def dhcp_handler_lost_def case_prod_beta call_sync_calls)
  have B2: "dhcp_handler DHCP_EVENT_EXPIRED w = Some w' \<and>
            map fst (calls w') = map fst (calls w1) @ [Address_update ad]"
    if "\<not> dhcp_critical net" "net_ipv4ll net"
       "(if dhcp_lease (lnk w) \<noteq> None then dhcp_lease_lost w else Some (0, w)) = Some (r, w1)"
       "ll_running ll" "ll_address ll = Got a"
       "ipv4ll_address_update False w1 = Some (0, w')"
       "map fst (calls w') = map fst (calls w1) @ [Address_update ad]" for a w' ad
    using that net nf ll r
    by (simp add: dhcp_handler_def dhcp_handler_lost_def ipv4ll_is_bound_def)
  show ?thesis
  proof (intro conjI impI allI)
    fix a
    assume h: "dhcp_lease_acquired (dhcp_client (lnk w)) w = Some (r, w1)" "ll_address ll = Got a"
    from upd[OF h(2), of True] obtain w' where
      w': "ipv4ll_address_update True w1 = Some (0, w')"
          "map fst (calls w') = map fst (calls w1) @
             [Address_update ((new_address (cfg w1))
                \<lparr>family := AF_INET, in_addr := a, prefixlen := 16, scope := RT_SCOPE_LINK,
                 ifa_prefered := 0,
                 broadcast := a OR drop_bit 16 (0xffffffff :: 32 word)\<rparr>)]"
      by auto
    from A1[OF h w'] show "\<exists>w'. dhcp_handler DHCP_EVENT_IP_ACQUIRE w = Some w' \<and>
                 map fst (calls w') = map fst (calls w1) @
                   [Address_update ((new_address (cfg w1))
                      \<lparr>family := AF_INET, in_addr := a, prefixlen := 16, scope := RT_SCOPE_LINK,
                       ifa_prefered := 0,
                       broadcast := a OR drop_bit 16 (0xffffffff :: 32 word)\<rparr>)]"
      by blast
  next
    fix e
    assume "dhcp_lease_acquired (dhcp_client (lnk w)) w = Some (r, w1)" "ll_address ll = Failed e"
    then show "\<exists>w'. dhcp_handler DHCP_EVENT_IP_ACQUIRE w = Some w' \<and>
                 map fst (calls w') = map fst (calls w1) @ [Ipv4ll_stop]"
      by (rule A2)
  next
    assume h: "\<not> dhcp_critical net \<and> net_ipv4ll net \<and>
          (if dhcp_lease (lnk w) \<noteq> None then dhcp_lease_lost w else Some (0, w)) = Some (r, w1)"
       and nr: "\<not> ll_running ll"
    show "\<exists>w'. dhcp_handler DHCP_EVENT_EXPIRED w = Some w' \<and>
                 map fst (calls w') = map fst (calls w1) @ [Ipv4ll_start]"
      using B1 h nr by blast
  next
    fix a
    assume h: "\<not> dhcp_critical net \<and> net_ipv4ll net \<and>
          (if dhcp_lease (lnk w) \<noteq> None then dhcp_lease_lost w else Some (0, w)) = Some (r, w1)"
       and rb: "ll_running ll \<and> ll_address ll = Got a"
    from upd[of a False] rb obtain w' where
      w': "ipv4ll_address_update False w1 = Some (0, w')"
          "map fst (calls w') = map fst (calls w1) @
             [Address_update ((new_address (cfg w1))
                \<lparr>family := AF_INET, in_addr := a, prefixlen := 16, scope := RT_SCOPE_LINK,
                 ifa_prefered := CACHE_INFO_INFINITY_LIFE_TIME,
                 broadcast := a OR drop_bit 16 (0xffffffff :: 32 word)\<rparr>)]"
      by auto
    show "\<exists>w'. dhcp_handler DHCP_EVENT_EXPIRED w = Some w' \<and>
                 map fst (calls w') = map fst (calls w1) @
                   [Address_update ((new_address (cfg w1))
                      \<lparr>family := AF_INET, in_addr := a, prefixlen := 16, scope := RT_SCOPE_LINK,
                       ifa_prefered := CACHE_INFO_INFINITY_LIFE_TIME,
                       broadcast := a OR drop_bit 16 (0xffffffff :: 32 word)\<rparr>)]"
      using B2[of a w'] h rb w' by blast
  qed
qed

theorem dhcp_ipv4ll_arbitration_witness:
  "(\<exists>w'. dhcp_handler DHCP_EVENT_IP_ACQUIRE
       (ex_world\<lparr>lnk := ex_link
          \<lparr>state := LINK_STATE_CONFIGURED,
           network := Some (ex_network\<lparr>net_ipv4ll := True\<rparr>),
           dhcp_client := Some \<lparr>client_lease = Got ex_lease\<rparr>,
           ipv4ll := Some \<lparr>ll_address = Got 0xA9FE0304, ll_running = True\<rparr>\<rparr>\<rparr>) = Some w' \<and>
     last (map fst (calls w')) =
       Address_update \<lparr>family = AF_INET, in_addr = 0xA9FE0304, prefixlen = 16,
          broadcast = 0xA9FEFFFF, scope = RT_SCOPE_LINK, ifa_prefered = 0\<rparr>) \<and>
   (\<exists>w'. dhcp_handler DHCP_EVENT_EXPIRED
       (ex_world\<lparr>lnk := ex_link
          \<lparr>state := LINK_STATE_CONFIGURED,
           network := Some (ex_network\<lparr>net_ipv4ll := True\<rparr>),
           ipv4ll := Some \<lparr>ll_address = Got 0xA9FE0304, ll_running = True\<rparr>\<rparr>\<rparr>) = Some w' \<and>
     map fst (calls w') =
       [Address_update \<lparr>family = AF_INET, in_addr = 0xA9FE0304, prefixlen = 16,
          broadcast = 0xA9FEFFFF, scope = RT_SCOPE_LINK,
          ifa_prefered = CACHE_INFO_INFINITY_LIFE_TIME\<rparr>])"
proof -
  let ?ll = "\<lparr>ll_address = Got (0xA9FE0304 :: 32 word), ll_running = True\<rparr>"
  let ?net = "ex_network\<lparr>net_ipv4ll := True\<rparr>"
  let ?wa = "ex_world\<lparr>lnk := ex_link
          \<lparr>state := LINK_STATE_CONFIGURED, network := Some ?net,
           dhcp_client := Some \<lparr>client_lease = Got ex_lease\<rparr>, ipv4ll := Some ?ll\<rparr>\<rparr>"
  let ?wb = "ex_world\<lparr>lnk := ex_link
          \<lparr>state := LINK_STATE_CONFIGURED, network := Some ?net, ipv4ll := Some ?ll\<rparr>\<rparr>"
  have b: "(0xA9FE0304 :: 32 word) OR drop_bit 16 (0xffffffff :: 32 word) = 0xA9FEFFFF"
    by simp
  have "\<exists>w1. dhcp_lease_acquired (dhcp_client (lnk ?wa)) ?wa = Some (0, w1) \<and>
          ipv4ll (lnk w1) = Some ?ll \<and> all_succeed w1 \<and> cfg w1 = ex_params"
    by (simp add: dhcp_lease_acquired_def lease_acquired_dns_def lease_acquired_mtu_def
          lease_acquired_hostname_def link_set_mtu_def link_enter_set_addresses_def
          set_addresses_ipv4ll_def set_addresses_dhcp_def next_result_def call_async_def
          log_link_def all_succeed_def ex_world_def ex_link_def ex_network_def ex_lease_def
          Let_def)
  then obtain w1 where w1: "dhcp_lease_acquired (dhcp_client (lnk ?wa)) ?wa = Some (0, w1)"
          "ipv4ll (lnk w1) = Some ?ll" "all_succeed w1" "cfg w1 = ex_params"
    by blast
  have A: "\<exists>w'. dhcp_handler DHCP_EVENT_IP_ACQUIRE ?wa = Some w' \<and>
                 map fst (calls w') = map fst (calls w1) @
                   [Address_update ((new_address (cfg w1))
                      \<lparr>family := AF_INET, in_addr := 0xA9FE0304, prefixlen := 16,
                       scope := RT_SCOPE_LINK, ifa_prefered := 0,
                       broadcast := 0xA9FE0304 OR drop_bit 16 (0xffffffff :: 32 word)\<rparr>)]"
    using dhcp_ipv4ll_arbitration[of ?wa ?net w1 ?ll 0] w1
    by (simp add: ex_link_def)
  have okb: "all_succeed ?wb" by (simp add: all_succeed_def ex_world_def)
  have B: "\<exists>w'. dhcp_handler DHCP_EVENT_EXPIRED ?wb = Some w' \<and>
                 map fst (calls w') = map fst (calls ?wb) @
                   [Address_update ((new_address (cfg ?wb))
                      \<lparr>family := AF_INET, in_addr := 0xA9FE0304, prefixlen := 16,
                       scope := RT_SCOPE_LINK, ifa_prefered := CACHE_INFO_INFINITY_LIFE_TIME,
                       broadcast := 0xA9FE0304 OR drop_bit 16 (0xffffffff :: 32 word)\<rparr>)]"
    using dhcp_ipv4ll_arbitration[of ?wb ?net ?wb ?ll 0] okb
    by (simp add: ex_link_def ex_network_def)
  from A B show ?thesis
    unfolding b
    by (auto simp add: w1(4) ex_params_def ex_address_def ex_world_def)
qed

section \<open>Parts of the code that leave the original MTU as it is\<close>

lemma pair_eqD: "x = (r, w') \<Longrightarrow> r = fst x \<and> w' = snd x"
  by auto

lemma quiet_refl [simp]: "quiet w w"
  by (simp add: quiet_def)

lemma quiet_trans: "quiet a b \<Longrightarrow> quiet b c \<Longrightarrow> quiet a c"
  by (simp add: quiet_def)

lemma quiet_prims [simp]:
  "quiet w (log_link lv s w)" "quiet w (snd (next_result w))" "quiet w (snd (call_sync c w))"
  "quiet w (snd (call_async c h w))" "quiet w (snd (link_save w))"
  by (simp_all add: quiet_def)

lemma quiet_mtu: "quiet w w' \<Longrightarrow> original_mtu (lnk w') = original_mtu (lnk w)"
  by (simp add: quiet_def)

lemma failed_mtu [simp]: "original_mtu (lnk (link_enter_failed w)) = original_mtu (lnk w)"
  by simp

lemma set_hostname_quiet: "set_hostname h w = Some (r, w') \<Longrightarrow> quiet w w'"
  by (auto simp add: set_hostname_def case_prod_beta Let_def quiet_def
        dest!: pair_eqD[of "next_result _"] pair_eqD[of "call_sync _ _"]
        split: option.splits if_splits)

lemma link_set_mtu_quiet: "link_set_mtu mtu w = Some (r, w') \<Longrightarrow> quiet w w'"
  by (auto simp add: link_set_mtu_def case_prod_beta Let_def quiet_def
        dest!: pair_eqD[of "next_result _"] pair_eqD[of "call_async _ _ _"] split: if_splits)

lemma link_up_quiet: "link_up w = Some (r, w') \<Longrightarrow> quiet w w'"
  by (auto simp add: link_up_def case_prod_beta Let_def quiet_def
        dest!: pair_eqD[of "next_result _"] pair_eqD[of "call_async _ _ _"] split: if_splits)

lemma link_acquire_conf_quiet: "link_acquire_conf w = Some (r, w') \<Longrightarrow> quiet w w'"
  by (auto simp add: link_acquire_conf_def case_prod_beta Let_def quiet_def
        dest!: pair_eqD[of "call_sync _ _"] split: option.splits if_splits)

lemma ipv4ll_address_update_quiet: "ipv4ll_address_update d w = Some (r, w') \<Longrightarrow> quiet w w'"
  by (auto simp add: ipv4ll_address_update_def case_prod_beta Let_def quiet_def
        dest!: pair_eqD[of "next_result _"] pair_eqD[of "call_async _ _ _"]
        split: option.splits res.splits if_splits)

lemma ipv4ll_address_lost_quiet: "ipv4ll_address_lost w = Some (r, w') \<Longrightarrow> quiet w w'"
  by (auto simp add: ipv4ll_address_lost_def case_prod_beta Let_def quiet_def
        dest!: pair_eqD[of "next_result _"] pair_eqD[of "call_async _ _ _"]
        split: option.splits res.splits if_splits)

lemma lease_acquired_dns_quiet: "quiet w (lease_acquired_dns net lease w)"
  by (auto simp add: lease_acquired_dns_def case_prod_beta Let_def quiet_def
        split: res.splits)

lemma lease_acquired_mtu_quiet: "lease_acquired_mtu net lease w = Some w' \<Longrightarrow> quiet w w'"
  by (auto simp add: lease_acquired_mtu_def quiet_def
        split: res.splits option.splits if_splits dest!: link_set_mtu_quiet)

lemma lease_acquired_hostname_quiet:
  "lease_acquired_hostname net lease w = Some w' \<Longrightarrow> quiet w w'"
  by (auto simp add: lease_acquired_hostname_def quiet_def
        split: res.splits option.splits if_splits dest!: set_hostname_quiet)

lemma dhcp_lease_lost_drop_quiet: "quiet w (dhcp_lease_lost_drop lease w)"
  by (simp add: dhcp_lease_lost_drop_def case_prod_beta Let_def quiet_def)

lemma calls_in_turn_quiet: "quiet w (snd (calls_in_turn cs w))"
proof (induction cs arbitrary: w)
  case Nil
  then show ?case by simp
next
  case (Cons c cs)
  have "quiet w (snd (call_sync c w))" by (simp add: quiet_def)
  from quiet_trans[OF this Cons.IH[of "snd (call_sync c w)"]]
  show ?case by (simp add: case_prod_beta Let_def quiet_def)
qed

lemma drop_handlers_quiet:
  "route_drop_handler m w = Some (r, w') \<Longrightarrow> quiet w w'"
  "address_drop_handler m w = Some (r, w') \<Longrightarrow> quiet w w'"
  "address_update_handler m w = Some (r, w') \<Longrightarrow> quiet w w'"
  "set_mtu_handler m w = Some (r, w') \<Longrightarrow> quiet w w'"
  by (auto simp add: route_drop_handler_def address_drop_handler_def
        address_update_handler_def set_mtu_handler_def quiet_def split: if_splits)

lemma lease_lost_hostname_quiet:
  "lease_lost_hostname net lease w = Some w' \<Longrightarrow> quiet w w'"
  by (auto simp add: lease_lost_hostname_def quiet_def
        split: if_splits res.splits option.splits dest!: set_hostname_quiet)

lemma lease_lost_mtu_kept:
  "lease_lost_mtu net lease w = Some (x, w') \<Longrightarrow> original_mtu (lnk w') = original_mtu (lnk w)"
  by (auto simp add: lease_lost_mtu_def quiet_def
        split: if_splits res.splits option.splits dest!: link_set_mtu_quiet)

lemma dhcp_lease_lost_kept:
  "dhcp_lease_lost w = Some (r, w') \<Longrightarrow> original_mtu (lnk w') = original_mtu (lnk w)"
  using dhcp_lease_lost_drop_quiet[of "log_link LOG_WARNING ''DHCP lease lost'' w"]
  by (auto simp add: dhcp_lease_lost_def quiet_def
        split: option.splits
        dest!: lease_lost_mtu_kept lease_lost_hostname_quiet)

lemma carrier_lost_stop_kept:
  "carrier_lost_stop net w = Some (r, w') \<Longrightarrow> original_mtu (lnk w') = original_mtu (lnk w)"
  by (auto simp add: carrier_lost_stop_def Let_def case_prod_beta
        dest!: pair_eqD[of "call_sync _ _"]
        split: option.splits if_splits)

lemma log_flag_frame [simp]:
  "lnk (log_flag a b f lv s1 s2 w) = lnk w" "mgr (log_flag a b f lv s1 s2 w) = mgr w"
  "cfg (log_flag a b f lv s1 s2 w) = cfg w" "pending (log_flag a b f lv s1 s2 w) = pending w"
  "results (log_flag a b f lv s1 s2 w) = results w"
  "calls (log_flag a b f lv s1 s2 w) = calls w"
  "fsys (log_flag a b f lv s1 s2 w) = fsys w"
  by (simp_all add: log_flag_def)

lemma log_flags_frame [simp]:
  "lnk (log_flags a b w) = lnk w" "mgr (log_flags a b w) = mgr w"
  "cfg (log_flags a b w) = cfg w" "pending (log_flags a b w) = pending w"
  "results (log_flags a b w) = results w" "calls (log_flags a b w) = calls w"
  "fsys (log_flags a b w) = fsys w"
  by (simp_all add: log_flags_def Let_def)

lemma link_update_flags_kept:
  "link_update_flags fl w = Some (r, w') \<Longrightarrow> original_mtu (lnk w') = original_mtu (lnk w)"
  by (auto simp add: link_update_flags_def Let_def quiet_def
        split: option.splits if_splits
        dest!: link_acquire_conf_quiet carrier_lost_stop_kept)

lemma link_up_handler_kept:
  "link_up_handler m w = Some (r, w') \<Longrightarrow> original_mtu (lnk w') = original_mtu (lnk w)"
  by (auto simp add: link_up_handler_def split: option.splits if_splits
        dest!: link_update_flags_kept)

subsection \<open>Routes\<close>

lemma link_enter_configured_kept:
  "link_enter_configured w = Some (r, w') \<Longrightarrow> original_mtu (lnk w') = original_mtu (lnk w)"
  by (auto simp add: link_enter_configured_def case_prod_beta Let_def split: if_splits)

lemma set_routes_static_kept [simp]:
  "original_mtu (lnk (snd (set_routes_static rts w))) = original_mtu (lnk w)"
  by (induction rts arbitrary: w) (simp_all add: case_prod_beta Let_def)

lemma set_routes_ipv4ll_kept [simp]:
  "original_mtu (lnk (snd (set_routes_ipv4ll w))) = original_mtu (lnk w)"
  by (simp add: set_routes_ipv4ll_def case_prod_beta Let_def split: option.splits res.splits)

lemma set_routes_dhcp_kept [simp]:
  "original_mtu (lnk (snd (set_routes_dhcp w))) = original_mtu (lnk w)"
  by (simp add: set_routes_dhcp_def case_prod_beta Let_def split: option.splits res.splits)

lemma link_enter_set_routes_kept:
  "link_enter_set_routes w = Some (r, w') \<Longrightarrow> original_mtu (lnk w') = original_mtu (lnk w)"
  by (auto simp add: link_enter_set_routes_def Let_def
        split: option.splits if_splits prod.splits
        dest!: link_enter_configured_kept pair_eqD[of "set_routes_static _ _"]
          pair_eqD[of "set_routes_ipv4ll _"] pair_eqD[of "set_routes_dhcp _"])

lemma route_handler_kept:
  "route_handler m w = Some (r, w') \<Longrightarrow> original_mtu (lnk w') = original_mtu (lnk w)"
  by (auto simp add: route_handler_def Let_def split: option.splits if_splits
        dest!: link_enter_configured_kept)

subsection \<open>Addresses\<close>

lemma set_addresses_static_kept [simp]:
  "original_mtu (lnk (snd (set_addresses_static ads w))) = original_mtu (lnk w)"
  by (induction ads arbitrary: w) (simp_all add: case_prod_beta Let_def)

lemma set_addresses_ipv4ll_kept [simp]:
  "original_mtu (lnk (snd (set_addresses_ipv4ll w))) = original_mtu (lnk w)"
  by (simp add: set_addresses_ipv4ll_def case_prod_beta Let_def split: option.splits res.splits)

lemma set_addresses_dhcp_kept [simp]:
  "original_mtu (lnk (snd (set_addresses_dhcp w))) = original_mtu (lnk w)"
  by (simp add: set_addresses_dhcp_def case_prod_beta Let_def split: option.splits res.splits)

lemma link_enter_set_addresses_kept:
  "link_enter_set_addresses w = Some (r, w') \<Longrightarrow> original_mtu (lnk w') = original_mtu (lnk w)"
  by (auto simp add: link_enter_set_addresses_def Let_def
        split: option.splits if_splits prod.splits
        dest!: link_enter_set_routes_kept pair_eqD[of "set_addresses_static _ _"]
          pair_eqD[of "set_addresses_ipv4ll _"] pair_eqD[of "set_addresses_dhcp _"])

lemma address_handler_kept:
  "address_handler m w = Some (r, w') \<Longrightarrow> original_mtu (lnk w') = original_mtu (lnk w)"
  by (auto simp add: address_handler_def Let_def split: option.splits if_splits
        dest!: link_enter_set_routes_kept)

subsection \<open>Enslaving\<close>

lemma link_enslaved_kept:
  "link_enslaved w = Some (r, w') \<Longrightarrow> original_mtu (lnk w') = original_mtu (lnk w)"
  by (auto simp add: link_enslaved_def quiet_def split: option.splits if_splits
        dest!: link_up_quiet link_enter_set_addresses_kept)

lemma enslave_handler_kept:
  "enslave_handler m w = Some (r, w') \<Longrightarrow> original_mtu (lnk w') = original_mtu (lnk w)"
  by (auto simp add: enslave_handler_def Let_def split: option.splits if_splits
        dest!: link_enslaved_kept)

lemma enslave_one_kept [simp]:
  "original_mtu (lnk (snd (enslave_one nd w))) = original_mtu (lnk w)"
  by (simp add: enslave_one_def case_prod_beta Let_def)

lemma enslave_all_kept [simp]:
  "original_mtu (lnk (snd (enslave_all nds w))) = original_mtu (lnk w)"
proof (induction nds arbitrary: w)
  case Nil
  then show ?case by simp
next
  case (Cons nd nds)
  show ?case
  proof (cases "enslave_one nd w")
    case (Pair e w1)
    then have "w1 = snd (enslave_one nd w)" by simp
    then have k: "original_mtu (lnk w1) = original_mtu (lnk w)" by simp
    show ?thesis using Pair k Cons.IH[of w1] by (cases e) simp_all
  qed
qed

lemma enslave_opt_kept [simp]:
  "original_mtu (lnk (snd (enslave_opt nd w))) = original_mtu (lnk w)"
  by (simp add: enslave_opt_def split: option.splits)

lemma link_enter_enslave_kept:
  "link_enter_enslave w = Some (r, w') \<Longrightarrow> original_mtu (lnk w') = original_mtu (lnk w)"
  by (auto simp add: link_enter_enslave_def Let_def
        split: option.splits if_splits prod.splits
        dest!: link_enslaved_kept pair_eqD[of "enslave_opt _ _"] pair_eqD[of "enslave_all _ _"])

subsection \<open>Configuring\<close>

lemma calls_in_turn_kept [simp]:
  "original_mtu (lnk (snd (calls_in_turn cs w))) = original_mtu (lnk w)"
  using calls_in_turn_quiet[of w cs] by (simp add: quiet_def)

lemma configure_ipv4ll_kept [simp]:
  "original_mtu (lnk (snd (configure_ipv4ll net w))) = original_mtu (lnk w)"
  by (simp add: configure_ipv4ll_def case_prod_beta Let_def split: prod.splits option.splits)

lemma configure_dhcp_kept [simp]:
  "original_mtu (lnk (snd (configure_dhcp net w))) = original_mtu (lnk w)"
  by (simp add: configure_dhcp_def case_prod_beta Let_def)

lemma link_configure_kept:
  "link_configure w = Some (r, w') \<Longrightarrow> original_mtu (lnk w') = original_mtu (lnk w)"
  by (auto simp add: link_configure_def
        split: option.splits if_splits prod.splits
        dest!: link_enter_enslave_kept pair_eqD[of "configure_ipv4ll _ _"]
          pair_eqD[of "configure_dhcp _ _"])

lemma network_apply_kept [simp]:
  "original_mtu (lnk (snd (network_apply net w))) = original_mtu (lnk w)"
  by (simp add: network_apply_def)

lemma link_initialized_kept:
  "link_initialized device found w = Some (r, w') \<Longrightarrow>
   original_mtu (lnk w') = original_mtu (lnk w)"
  by (auto simp add: link_initialized_def Let_def case_prod_beta
        split: option.splits if_splits res.splits
        dest!: link_configure_kept link_update_flags_kept pair_eqD[of "network_apply _ _"])

subsection \<open>The events of the DHCP and the IPv4LL client\<close>

lemma dhcp_lease_acquired_kept:
  assumes "dhcp_lease_acquired client w = Some (r, w')"
  shows "original_mtu (lnk w') = original_mtu (lnk w)"
proof -
  from assms consider
    (fail) lv s where "w' = log_link lv s w"
  | (ok) lease net w3 w4 r' where
      "lease_acquired_mtu net lease
         (lease_acquired_dns net lease
            ((log_link LOG_INFO ''DHCPv4 address'' w)
               \<lparr>lnk := (lnk w)\<lparr>dhcp_lease := Some lease\<rparr>\<rparr>)) = Some w3"
      "lease_acquired_hostname net lease w3 = Some w4"
      "link_enter_set_addresses w4 = Some (r', w')"
    by (auto simp add: dhcp_lease_acquired_def Let_def split: option.splits res.splits)
  then show ?thesis
  proof cases
    case fail
    then show ?thesis by simp
  next
    case ok
    let ?w2 = "(log_link LOG_INFO ''DHCPv4 address'' w)\<lparr>lnk := (lnk w)\<lparr>dhcp_lease := Some lease\<rparr>\<rparr>"
    have q: "quiet ?w2 w4"
      using quiet_trans[OF quiet_trans[OF lease_acquired_dns_quiet[of ?w2 net lease]
              lease_acquired_mtu_quiet[OF ok(1)]] lease_acquired_hostname_quiet[OF ok(2)]] .
    from quiet_mtu[OF q] link_enter_set_addresses_kept[OF ok(3)] show ?thesis by simp
  qed
qed

lemma ipv4ll_address_claimed_kept:
  "ipv4ll_address_claimed ll w = Some (r, w') \<Longrightarrow> original_mtu (lnk w') = original_mtu (lnk w)"
  by (auto simp add: ipv4ll_address_claimed_def split: option.splits res.splits
        dest!: link_enter_set_addresses_kept)

lemma or_failed_kept:
  assumes "(case x of None \<Rightarrow> None
            | Some (r, w1) \<Rightarrow> if r < 0 then Some (link_enter_failed w1) else Some w1) = Some w'"
    and "\<And>r w1. x = Some (r, w1) \<Longrightarrow> original_mtu (lnk w1) = v"
  shows "original_mtu (lnk w') = v"
  using assms by (auto split: option.splits if_splits)

lemma ipv4ll_handler_kept:
  assumes "ipv4ll_handler ev w = Some w'"
  shows "original_mtu (lnk w') = original_mtu (lnk w)"
proof -
  have lost: "original_mtu (lnk x) = original_mtu (lnk w)"
    if "(case ipv4ll_address_lost w of
           None \<Rightarrow> None
         | Some (r, w1) \<Rightarrow> if r < 0 then Some (link_enter_failed w1) else Some w1) = Some x" for x
    using that by (rule or_failed_kept) (auto dest!: ipv4ll_address_lost_quiet simp add: quiet_def)
  have claimed: "original_mtu (lnk x) = original_mtu (lnk w)"
    if "(case ipv4ll_address_claimed (ipv4ll (lnk w)) w of
           None \<Rightarrow> None
         | Some (r, w1) \<Rightarrow> if r < 0 then Some (link_enter_failed w1) else Some w1) = Some x" for x
    using that by (rule or_failed_kept) (auto dest!: ipv4ll_address_claimed_kept)
  show ?thesis
    using assms lost claimed
    by (cases ev) (auto simp add: ipv4ll_handler_def split: if_splits)
qed

lemma dhcp_handler_lost_kept:
  assumes run: "dhcp_handler_lost ev net w = Some w'"
  shows "original_mtu (lnk w') = original_mtu (lnk w)"
proof (cases "dhcp_critical net")
  case True
  then show ?thesis using run by (auto simp add: dhcp_handler_lost_def)
next
  case False
  from run False obtain r1 w1 where
    s1: "(if dhcp_lease (lnk w) \<noteq> None then dhcp_lease_lost w else Some (0, w)) = Some (r1, w1)"
    by (auto simp add: dhcp_handler_lost_def split: option.splits)
  have k1: "original_mtu (lnk w1) = original_mtu (lnk w)"
    using s1 by (auto split: if_splits dest: dhcp_lease_lost_kept)
  show ?thesis
  proof (cases "r1 < 0")
    case True
    then have "w' = link_enter_failed w1"
      using run \<open>\<not> dhcp_critical net\<close> s1 by (simp add: dhcp_handler_lost_def)
    then show ?thesis using k1 by simp
  next
    case r1: False
    from run \<open>\<not> dhcp_critical net\<close> s1 r1 obtain r2 w2 where
      s2: "(if ev = DHCP_EVENT_IP_CHANGE
            then dhcp_lease_acquired (dhcp_client (lnk w1)) w1 else Some (r1, w1)) = Some (r2, w2)"
      by (auto simp add: dhcp_handler_lost_def split: option.splits)
    have k2: "original_mtu (lnk w2) = original_mtu (lnk w)"
      using s2 k1 by (auto split: if_splits dest: dhcp_lease_acquired_kept)
    have rest: "(if r2 < 0 then Some (link_enter_failed w2)
                 else if ev = DHCP_EVENT_EXPIRED \<and> net_ipv4ll net
                 then (case ipv4ll (lnk w2) of
                         None \<Rightarrow> None
                       | Some ll \<Rightarrow>
                           (case (if \<not> ll_running ll then Some (call_sync Ipv4ll_start w2)
                                  else if ipv4ll_is_bound ll then ipv4ll_address_update False w2
                                  else Some (r2, w2)) of
                              None \<Rightarrow> None
                            | Some (r3, w3) \<Rightarrow>
                                if r3 < 0 then Some (link_enter_failed w3) else Some w3))
                 else Some w2) = Some w'"
      using run \<open>\<not> dhcp_critical net\<close> s1 r1 s2 by (simp add: dhcp_handler_lost_def)
    show ?thesis
    proof (cases "r2 < 0")
      case True
      then show ?thesis using rest k2 by auto
    next
      case r2: False
      show ?thesis
      proof (cases "ev = DHCP_EVENT_EXPIRED \<and> net_ipv4ll net")
        case False
        then show ?thesis using rest r2 k2 by auto
      next
        case True
        with rest r2 obtain ll where ll: "ipv4ll (lnk w2) = Some ll"
          and t: "(case (if \<not> ll_running ll then Some (call_sync Ipv4ll_start w2)
                                  else if ipv4ll_is_bound ll then ipv4ll_address_update False w2
                                  else Some (r2, w2)) of
                              None \<Rightarrow> None
                            | Some (r3, w3) \<Rightarrow>
                                if r3 < 0 then Some (link_enter_failed w3) else Some w3) = Some w'"
          by (auto split: option.splits)
        show ?thesis
        proof (rule or_failed_kept[OF t])
          fix r3 w3
          assume a: "(if \<not> ll_running ll then Some (call_sync Ipv4ll_start w2)
                      else if ipv4ll_is_bound ll then ipv4ll_address_update False w2
                      else Some (r2, w2)) = Some (r3, w3)"
          have "quiet w2 w3"
          proof (cases "ll_running ll")
            case False
            then have "w3 = snd (call_sync Ipv4ll_start w2)" using a by (auto dest: pair_eqD)
            then show ?thesis by simp
          next
            case True
            then show ?thesis using a
              by (auto split: if_splits dest: ipv4ll_address_update_quiet)
          qed
          from quiet_mtu[OF this] k2
          show "original_mtu (lnk w3) = original_mtu (lnk w)" by simp
        qed
      qed
    qed
  qed
qed

lemma dhcp_handler_kept:
  assumes run: "dhcp_handler ev w = Some w'"
  shows "original_mtu (lnk w') = original_mtu (lnk w)"
proof -
  from run obtain net where net: "network (lnk w) = Some net"
    by (auto simp add: dhcp_handler_def split: option.splits)
  show ?thesis
  proof (cases "state (lnk w) = LINK_STATE_FAILED")
    case True
    then show ?thesis using run net by (simp add: dhcp_handler_def)
  next
    case nf: False
    show ?thesis
    proof (cases "ev = DHCP_EVENT_IP_ACQUIRE")
      case False
      then have "dhcp_handler_lost ev net w = Some w' \<or> (\<exists>lv s. w' = log_link lv s w)"
        using run net nf by (cases ev) (auto simp add: dhcp_handler_def split: if_splits)
      then show ?thesis using dhcp_handler_lost_kept by auto
    next
      case True
      with run net nf obtain r w1 where
        a: "dhcp_lease_acquired (dhcp_client (lnk w)) w = Some (r, w1)"
        by (auto simp add: dhcp_handler_def split: option.splits)
      note k1 = dhcp_lease_acquired_kept[OF a]
      have rest: "(if r < 0 then Some (link_enter_failed w1)
                   else (case ipv4ll (lnk w1) of
                           None \<Rightarrow> Some w1
                         | Some ll \<Rightarrow>
                             (case (if ipv4ll_is_bound ll then ipv4ll_address_update True w1
                                    else Some (call_sync Ipv4ll_stop w1)) of
                                None \<Rightarrow> None
                              | Some (r', w2) \<Rightarrow>
                                  if r' < 0 then Some (link_enter_failed w2) else Some w2))) = Some w'"
        using run net nf True a by (simp add: dhcp_handler_def)
      show ?thesis
      proof (cases "r < 0 \<or> ipv4ll (lnk w1) = None")
        case True
        then show ?thesis using rest k1 by (auto split: if_splits)
      next
        case False
        then obtain ll where ll: "ipv4ll (lnk w1) = Some ll" by auto
        with rest False have t: "(case (if ipv4ll_is_bound ll then ipv4ll_address_update True w1
                                    else Some (call_sync Ipv4ll_stop w1)) of
                                None \<Rightarrow> None
                              | Some (r', w2) \<Rightarrow>
                                  if r' < 0 then Some (link_enter_failed w2) else Some w2) = Some w'"
          by simp
        show ?thesis
        proof (rule or_failed_kept[OF t])
          fix r3 w3
          assume b: "(if ipv4ll_is_bound ll then ipv4ll_address_update True w1
                      else Some (call_sync Ipv4ll_stop w1)) = Some (r3, w3)"
          have "quiet w1 w3"
          proof (cases "ipv4ll_is_bound ll")
            case False
            then have "w3 = snd (call_sync Ipv4ll_stop w1)" using b by (auto dest: pair_eqD)
            then show ?thesis by simp
          next
            case True
            then show ?thesis using b by (auto dest: ipv4ll_address_update_quiet)
          qed
          from quiet_mtu[OF this] k1
          show "original_mtu (lnk w3) = original_mtu (lnk w)" by simp
        qed
      qed
    qed
  qed
qed

subsection \<open>link_update\<close>

lemma link_update_name_kept [simp]:
  "original_mtu (lnk (snd (link_update_name old_name m w))) = original_mtu (lnk w)"
  by (simp add: link_update_name_def case_prod_beta Let_def split: res.splits)

lemma link_update_mac_kept [simp]:
  "original_mtu (lnk (snd (link_update_mac m w))) = original_mtu (lnk w)"
  by (simp add: link_update_mac_def case_prod_beta Let_def split: res.splits prod.splits option.splits)

lemma link_update_mtu_once:
  "original_mtu (lnk (link_update_mtu m w)) = original_mtu (lnk w) \<or> original_mtu (lnk w) = 0"
  by (simp add: link_update_mtu_def split: res.splits)

lemma link_update_once:
  assumes run: "link_update m w = Some (r, w')"
  shows "original_mtu (lnk w') = original_mtu (lnk w) \<or> original_mtu (lnk w) = 0"
proof -
  from run obtain old_name where nm: "ifname (lnk w) = Some old_name"
    by (auto simp add: link_update_def split: option.splits)
  show ?thesis
  proof (cases "state (lnk w) = LINK_STATE_FAILED")
    case True
    then show ?thesis using run nm by (simp add: link_update_def)
  next
    case nf: False
    obtain e w2 where x: "link_update_name old_name m w = (e, w2)"
      by (cases "link_update_name old_name m w") auto
    then have "w2 = snd (link_update_name old_name m w)" by simp
    then have k2: "original_mtu (lnk w2) = original_mtu (lnk w)" by simp
    show ?thesis
    proof (cases e)
      case (Some a)
      then have "w' = w2" using run nm nf x by (simp add: link_update_def)
      then show ?thesis using k2 by simp
    next
      case None
      let ?w3 = "link_update_mtu m w2"
      obtain e4 w4 where mac: "link_update_mac m ?w3 = (e4, w4)"
        by (cases "link_update_mac m ?w3") auto
      then have "w4 = snd (link_update_mac m ?w3)" by simp
      then have k4: "original_mtu (lnk w4) = original_mtu (lnk ?w3)" by simp
      have t: "(case e4 of
                  Some r \<Rightarrow> Some (r, w4)
                | None \<Rightarrow>
                    (case msg_flags m of
                       Failed r \<Rightarrow> Some (r, log_link LOG_WARNING ''Could not get link flags'' w4)
                     | Got fl \<Rightarrow> link_update_flags fl w4)) = Some (r, w')"
        using run nm nf x None mac by (simp add: link_update_def split: option.splits)
      have "original_mtu (lnk w') = original_mtu (lnk w4)"
        using t by (auto split: option.splits res.splits dest: link_update_flags_kept)
      with k4 k2 link_update_mtu_once[of m w2] show ?thesis by auto
    qed
  qed
qed

subsection \<open>The machine\<close>

lemma arrive_frame [simp]:
  "pending (arrive e w) = pending w"
  "original_mtu (lnk (arrive e w)) = original_mtu (lnk w)"
  by (simp_all add: arrive_def)

lemma run_handler_kept:
  "run_handler h m w = Some (r, w') \<Longrightarrow> original_mtu (lnk w') = original_mtu (lnk w)"
  by (cases h)
     (auto simp add: run_handler_def quiet_def
        dest: route_handler_kept address_handler_kept enslave_handler_kept
          link_up_handler_kept drop_handlers_quiet)

lemma step_once:
  assumes run: "step e i w = Some w'"
  shows "original_mtu (lnk w') = original_mtu (lnk w) \<or> original_mtu (lnk w) = 0"
proof (cases i)
  case (In_initialized device found)
  with run obtain r where "link_initialized device found (arrive e w) = Some (r, w')"
    by (auto simp add: step_def Let_def)
  from link_initialized_kept[OF this] show ?thesis by simp
next
  case (In_update m)
  with run obtain r where "link_update m (arrive e w) = Some (r, w')"
    by (auto simp add: step_def Let_def)
  from link_update_once[OF this] show ?thesis by simp
next
  case (In_completion m)
  with run obtain h hs r where
    "run_handler h m ((arrive e w)\<lparr>pending := hs\<rparr>) = Some (r, w')"
    by (auto simp add: step_def Let_def split: option.splits)
  from run_handler_kept[OF this] show ?thesis by simp
next
  case (In_enslaved m)
  with run obtain r where
    "enslave_handler m ((arrive e w)\<lparr>pending := remove1 H_enslave_handler (pending w)\<rparr>) =
       Some (r, w')"
    by (auto simp add: step_def Let_def split: if_splits)
  from enslave_handler_kept[OF this] show ?thesis by simp
next
  case (In_dhcp ev)
  with run have "dhcp_handler ev (arrive e w) = Some w'"
    by (auto simp add: step_def Let_def split: if_splits)
  from dhcp_handler_kept[OF this] show ?thesis by simp
next
  case (In_ipv4ll ev)
  with run have "ipv4ll_handler ev (arrive e w) = Some w'"
    by (auto simp add: step_def Let_def split: if_splits)
  from ipv4ll_handler_kept[OF this] show ?thesis by simp
qed

lemma reachable_run: "reachable w \<Longrightarrow> run evs w = Some w' \<Longrightarrow> reachable w'"
proof (induction evs arbitrary: w)
  case Nil
  then show ?case by simp
next
  case (Cons ei evs)
  then obtain w1 where s: "step (fst ei) (snd ei) w = Some w1" and r: "run evs w1 = Some w'"
    by (auto split: option.splits)
  from Cons.IH[OF reachable_step[OF Cons.prems(1) s] r] show ?case .
qed

section \<open>Claim C2: a configured link and its counters\<close>

text \<open>
  Claim C2, where the code departs from it. The claim says that in every reachable state
  a link whose state is CONFIGURED has \<open>addr_messages\<close>, \<open>route_messages\<close> and
  \<open>enslaving\<close> equal to 0. The code reaches CONFIGURED with \<open>enslaving\<close> equal to 1:
  with a profile that names a bridge and asks for DHCP, the lease may arrive while the
  enslave request is still outstanding; dhcp_lease_acquired calls
  link_enter_set_addresses whatever the state is, and the address and route handlers
  never read \<open>enslaving\<close>. In the run \<open>ex_race_run\<close> from a new link the machine ends
  in CONFIGURED with the enslave completion still owed, and when that completion comes
  the assert of enslave_handler on the state fails.
\<close>

theorem configured_while_enslaving:
  "reachable (the (run ex_race_run ex_fresh_world)) \<and>
   state (lnk (the (run ex_race_run ex_fresh_world))) = LINK_STATE_CONFIGURED \<and>
   addr_messages (lnk (the (run ex_race_run ex_fresh_world))) = 0 \<and>
   route_messages (lnk (the (run ex_race_run ex_fresh_world))) = 0 \<and>
   enslaving (lnk (the (run ex_race_run ex_fresh_world))) = 1 \<and>
   pending (the (run ex_race_run ex_fresh_world)) = [H_enslave_handler] \<and>
   step ex_surroundings (In_enslaved ex_message) (the (run ex_race_run ex_fresh_world)) = None"
proof -
  have "run ex_race_run ex_fresh_world \<noteq> None" by code_simp
  then have a: "run ex_race_run ex_fresh_world = Some (the (run ex_race_run ex_fresh_world))"
    by simp
  have f: "fresh_link (lnk ex_fresh_world)" "pending ex_fresh_world = []" by code_simp+
  have r: "reachable (the (run ex_race_run ex_fresh_world))"
    by (rule reachable_run[OF reachable_init[OF f] a])
  have c: "state (lnk (the (run ex_race_run ex_fresh_world))) = LINK_STATE_CONFIGURED"
    "addr_messages (lnk (the (run ex_race_run ex_fresh_world))) = 0"
    "route_messages (lnk (the (run ex_race_run ex_fresh_world))) = 0"
    "enslaving (lnk (the (run ex_race_run ex_fresh_world))) = 1"
    "pending (the (run ex_race_run ex_fresh_world)) = [H_enslave_handler]"
    "step ex_surroundings (In_enslaved ex_message) (the (run ex_race_run ex_fresh_world)) = None"
    by code_simp+
  show ?thesis by (intro conjI r c)
qed

section \<open>Claim C8: the original MTU\<close>

lemma trace_head: "\<exists>t. trace evs w = w # t"
  by (cases evs) simp_all

lemma trace_mtu_kept:
  "original_mtu (lnk w) \<noteq> 0 \<Longrightarrow>
   \<forall>x\<in>set (trace evs w). original_mtu (lnk x) = original_mtu (lnk w)"
proof (induction evs arbitrary: w)
  case Nil
  then show ?case by simp
next
  case (Cons ei evs)
  show ?case
  proof (cases "step (fst ei) (snd ei) w")
    case None
    then show ?thesis by simp
  next
    case (Some w1)
    from step_once[OF Some] Cons.prems
    have k: "original_mtu (lnk w1) = original_mtu (lnk w)" by auto
    from Cons.IH[of w1] k Cons.prems Some show ?thesis by simp
  qed
qed

lemma changes_const: "\<forall>x\<in>set xs. f x = c \<Longrightarrow> changes (map f xs) = 0"
  by (induction xs rule: changes.induct) simp_all

lemma trace_changes:
  "changes (map (\<lambda>x. original_mtu (lnk x)) (trace evs w)) \<le> 1"
proof (induction evs arbitrary: w)
  case Nil
  then show ?case by simp
next
  case (Cons ei evs)
  show ?case
  proof (cases "step (fst ei) (snd ei) w")
    case None
    then show ?thesis by simp
  next
    case (Some w1)
    obtain t where t: "trace evs w1 = w1 # t" using trace_head by blast
    from step_once[OF Some]
    have k: "original_mtu (lnk w1) = original_mtu (lnk w) \<or> original_mtu (lnk w) = 0" .
    have c: "changes (map (\<lambda>x. original_mtu (lnk x)) (trace (ei # evs) w)) =
             (if original_mtu (lnk w) \<noteq> original_mtu (lnk w1) then 1 else 0) +
             changes (map (\<lambda>x. original_mtu (lnk x)) (trace evs w1))"
      using Some t by simp
    show ?thesis
    proof (cases "original_mtu (lnk w) = original_mtu (lnk w1)")
      case True
      then show ?thesis using c Cons.IH[of w1] by simp
    next
      case False
      then have "original_mtu (lnk w1) \<noteq> 0" using k by auto
      from changes_const[OF trace_mtu_kept[OF this]] c False show ?thesis by simp
    qed
  qed
qed

lemma mtu_requests_frame [simp]:
  "mtu_requests (log_link lv s w) = mtu_requests w"
  "mtu_requests (snd (next_result w)) = mtu_requests w"
  "mtu_requests (w\<lparr>lnk := l\<rparr>) = mtu_requests w"
  "mtu_requests (w\<lparr>fsys := f\<rparr>) = mtu_requests w"
  "mtu_requests (fprintf p s w) = mtu_requests w"
  "mtu_requests (snd (call_sync c w)) =
     mtu_requests w @ (case c of Setlink_mtu i v \<Rightarrow> [v] | _ \<Rightarrow> [])"
  "mtu_requests (snd (call_async c h w)) =
     mtu_requests w @ (case c of Setlink_mtu i v \<Rightarrow> [v] | _ \<Rightarrow> [])"
  by (simp_all add: mtu_requests_def call_sync_calls call_async_calls)

lemma mtu_requests_save_parts [simp]:
  "mtu_requests (snd (link_save_finish r w)) = mtu_requests w"
  "mtu_requests (snd (fopen_temporary p w)) = mtu_requests w"
  by (simp_all add: link_save_finish_def fopen_temporary_def case_prod_beta Let_def)

lemma mtu_requests_commit [simp]:
  "mtu_requests (snd (link_save_commit r t w)) = mtu_requests w"
  by (simp add: link_save_commit_def case_prod_beta Let_def)

lemma mtu_requests_link_save [simp]: "mtu_requests (snd (link_save w)) = mtu_requests w"
  by (simp add: link_save_def case_prod_beta Let_def split: option.splits)

lemma mtu_requests_failed [simp]: "mtu_requests (link_enter_failed w) = mtu_requests w"
  by (simp add: link_enter_failed_def case_prod_beta Let_def)

lemma mtu_requests_drop [simp]: "mtu_requests (dhcp_lease_lost_drop lease w) = mtu_requests w"
  by (simp add: dhcp_lease_lost_drop_def case_prod_beta Let_def)

lemma set_hostname_mtu_requests: "set_hostname h w = Some (r, w') \<Longrightarrow> mtu_requests w' = mtu_requests w"
  by (auto simp add: set_hostname_def case_prod_beta Let_def split: option.splits if_splits
        dest!: pair_eqD[of "next_result _"] pair_eqD[of "call_sync _ _"])

lemma lease_lost_hostname_mtu_requests:
  "lease_lost_hostname net lease w = Some w' \<Longrightarrow> mtu_requests w' = mtu_requests w"
  by (auto simp add: lease_lost_hostname_def
        split: option.splits if_splits res.splits dest!: set_hostname_mtu_requests)

lemma lease_lost_hostname_returns: "\<exists>w'. lease_lost_hostname net lease w = Some w'"
  by (auto simp add: lease_lost_hostname_def set_hostname_def case_prod_beta Let_def
        split: option.splits res.splits)

lemma link_set_mtu_requests:
  "link_set_mtu v w = Some (r, w') \<Longrightarrow>
   mtu_requests w' = mtu_requests w \<or> mtu_requests w' = mtu_requests w @ [v]"
  by (auto simp add: link_set_mtu_def case_prod_beta Let_def split: if_splits
        dest!: pair_eqD[of "next_result _"] pair_eqD[of "call_async _ _ _"])

lemma lease_lost_mtu_requests:
  "lease_lost_mtu net lease w = Some (e, w') \<Longrightarrow>
   mtu_requests w' = mtu_requests w \<or>
   mtu_requests w' = mtu_requests w @ [ucast (original_mtu (lnk w))]"
  by (auto simp add: lease_lost_mtu_def split: if_splits res.splits option.splits
        dest!: link_set_mtu_requests)

lemma dhcp_lease_lost_requests:
  assumes "dhcp_lease_lost w = Some (r, w')"
  shows "mtu_requests w' = mtu_requests w \<or>
         mtu_requests w' = mtu_requests w @ [ucast (original_mtu (lnk w))]"
proof -
  from assms obtain lease net e w2 where
    m: "lease_lost_mtu net lease
          (dhcp_lease_lost_drop lease (log_link LOG_WARNING ''DHCP lease lost'' w)) = Some (e, w2)"
    and t: "w' = w2 \<or> (\<exists>w3. lease_lost_hostname net lease w2 = Some w3 \<and>
                         w' = w3\<lparr>lnk := (lnk w3)\<lparr>dhcp_lease := None\<rparr>\<rparr>)"
    by (auto simp add: dhcp_lease_lost_def split: option.splits)
  have l: "lnk (dhcp_lease_lost_drop lease (log_link LOG_WARNING ''DHCP lease lost'' w)) = lnk w"
    using dhcp_lease_lost_drop_quiet[of "log_link LOG_WARNING ''DHCP lease lost'' w" lease]
    by (simp add: quiet_def)
  from lease_lost_mtu_requests[OF m] l
  have "mtu_requests w2 = mtu_requests w \<or>
        mtu_requests w2 = mtu_requests w @ [ucast (original_mtu (lnk w))]" by simp
  moreover have "mtu_requests w' = mtu_requests w2"
    using t by (auto dest: lease_lost_hostname_mtu_requests)
  ultimately show ?thesis by simp
qed

lemma dhcp_lease_lost_drop_succeed:
  "all_succeed w \<Longrightarrow> all_succeed (dhcp_lease_lost_drop lease w)"
  by (simp add: dhcp_lease_lost_drop_def case_prod_beta Let_def
        next_result_succeed call_async_succeed)

lemma link_set_mtu_ok:
  assumes "rtnl (mgr w)" and ok: "all_succeed w"
  shows "\<exists>w'. link_set_mtu v w = Some (0, w') \<and> mtu_requests w' = mtu_requests w @ [v]"
proof -
  define w0 where "w0 = log_link LOG_DEBUG ''setting MTU'' w"
  define w1 where "w1 = snd (next_result w0)"
  define w2 where "w2 = snd (next_result w1)"
  define c where "c = call_async (Setlink_mtu (ifindex (lnk w2)) v) H_set_mtu_handler w2"
  have s0: "all_succeed w0" using ok by (simp add: w0_def)
  have s1: "0 \<le> fst (next_result w0)" "all_succeed w1"
    using next_result_succeed[OF s0] by (simp_all add: w1_def)
  have s2: "0 \<le> fst (next_result w1)" "all_succeed w2"
    using next_result_succeed[OF s1(2)] by (simp_all add: w2_def)
  have s3: "0 \<le> fst c" using call_async_succeed[OF s2(2)] by (simp add: c_def)
  have "link_set_mtu v w = Some (0, snd c)"
    using assms(1) s1(1) s2(1) s3 unfolding c_def w2_def w1_def w0_def
    by (simp add: link_set_mtu_def case_prod_beta Let_def)
  moreover have "mtu_requests (snd c) = mtu_requests w @ [v]"
    by (simp add: c_def w2_def w1_def w0_def)
  ultimately show ?thesis by blast
qed

lemma dhcp_lease_lost_restores:
  assumes re: "restoring w" and rt: "rtnl (mgr w)" and ok: "all_succeed w"
  shows "\<exists>w'. dhcp_lease_lost w = Some (0, w') \<and>
              mtu_requests w' = mtu_requests w @ [ucast (original_mtu (lnk w))]"
proof -
  from re obtain net lease mtu where
    n: "network (lnk w) = Some net" and l: "dhcp_lease (lnk w) = Some lease"
    and dm: "dhcp_mtu net" and lm: "lease_mtu lease = Got mtu" and ne: "original_mtu (lnk w) \<noteq> mtu"
    by (auto simp add: restoring_def split: option.splits res.splits)
  define w0 where "w0 = dhcp_lease_lost_drop lease (log_link LOG_WARNING ''DHCP lease lost'' w)"
  have q: "quiet (log_link LOG_WARNING ''DHCP lease lost'' w) w0"
    unfolding w0_def by (rule dhcp_lease_lost_drop_quiet)
  have f0: "lnk w0 = lnk w" "mgr w0 = mgr w" using q by (simp_all add: quiet_def)
  have s0: "all_succeed w0" unfolding w0_def using ok by (simp add: dhcp_lease_lost_drop_succeed)
  have m0: "mtu_requests w0 = mtu_requests w" by (simp add: w0_def)
  from link_set_mtu_ok[of w0 "ucast (original_mtu (lnk w))"] rt s0 f0 obtain w1 where
    w1: "link_set_mtu (ucast (original_mtu (lnk w))) w0 = Some (0, w1)"
        "mtu_requests w1 = mtu_requests w0 @ [ucast (original_mtu (lnk w))]"
    by auto
  have a: "lease_lost_mtu net lease w0 = Some (None, w1)"
    using dm lm ne f0 w1(1) by (simp add: lease_lost_mtu_def)
  obtain w3 where w3: "lease_lost_hostname net lease w1 = Some w3"
    using lease_lost_hostname_returns by blast
  have "dhcp_lease_lost w = Some (0, w3\<lparr>lnk := (lnk w3)\<lparr>dhcp_lease := None\<rparr>\<rparr>)"
    using n l a w3 unfolding w0_def by (simp add: dhcp_lease_lost_def)
  moreover have "mtu_requests (w3\<lparr>lnk := (lnk w3)\<lparr>dhcp_lease := None\<rparr>\<rparr>) =
                 mtu_requests w @ [ucast (original_mtu (lnk w))]"
    using lease_lost_hostname_mtu_requests[OF w3] w1(2) m0 by simp
  ultimately show ?thesis by blast
qed

text \<open>
  Claim C8. Over the life of a link the value of \<open>original_mtu\<close> changes at most
  once: link_update reads IFLA_MTU into it only while it is 0, and once it is not 0 no
  event changes it. When the lease is lost, the only MTU that dhcp_lease_lost can
  request is this value; and it does request it when the profile applies the lease's
  MTU, the lease carries an MTU other than the original one, and no call fails.
\<close>

theorem original_mtu_set_once_and_restored:
  assumes "reachable w"
  shows "changes (map (\<lambda>x. original_mtu (lnk x)) (trace evs w)) \<le> 1 \<and>
         (original_mtu (lnk w) \<noteq> 0 \<longrightarrow>
            (\<forall>x\<in>set (trace evs w). original_mtu (lnk x) = original_mtu (lnk w))) \<and>
         (\<forall>r w'. dhcp_lease_lost w = Some (r, w') \<longrightarrow>
            mtu_requests w' = mtu_requests w \<or>
            mtu_requests w' = mtu_requests w @ [ucast (original_mtu (lnk w))]) \<and>
         (restoring w \<and> rtnl (mgr w) \<and> all_succeed w \<longrightarrow>
            (\<exists>w'. dhcp_lease_lost w = Some (0, w') \<and>
                  mtu_requests w' = mtu_requests w @ [ucast (original_mtu (lnk w))]))"
  using trace_changes[of evs w] trace_mtu_kept[of w evs]
    dhcp_lease_lost_requests[of w] dhcp_lease_lost_restores[of w]
  by blast

theorem original_mtu_set_once_and_restored_witness:
  "reachable (the (run ex_run ex_fresh_world)) \<and>
   restoring (the (run ex_run ex_fresh_world)) \<and>
   rtnl (mgr (the (run ex_run ex_fresh_world))) \<and>
   all_succeed (the (run ex_run ex_fresh_world)) \<and>
   original_mtu (lnk (the (run ex_run ex_fresh_world))) = 1500 \<and>
   changes (map (\<lambda>x. original_mtu (lnk x)) (trace ex_later (the (run ex_run ex_fresh_world)))) \<le> 1 \<and>
   map (\<lambda>x. original_mtu (lnk x)) (trace ex_later (the (run ex_run ex_fresh_world))) =
     [1500, 1500, 1500] \<and>
   changes (map (\<lambda>x. original_mtu (lnk x)) (trace (ex_run @ ex_later) ex_fresh_world)) = 1 \<and>
   (\<exists>w'. dhcp_lease_lost (the (run ex_run ex_fresh_world)) = Some (0, w') \<and>
         mtu_requests w' = [1400, 1500])"
proof -
  let ?w = "the (run ex_run ex_fresh_world)"
  have "run ex_run ex_fresh_world \<noteq> None" by code_simp
  then have a: "run ex_run ex_fresh_world = Some ?w" by simp
  have f: "fresh_link (lnk ex_fresh_world)" "pending ex_fresh_world = []" by code_simp+
  have r: "reachable ?w"
    by (rule reachable_run[OF reachable_init[OF f] a])
  have p: "restoring ?w" "rtnl (mgr ?w)" "all_succeed ?w" by code_simp+
  have m: "original_mtu (lnk ?w) = 1500" "mtu_requests ?w = [1400]" by code_simp+
  have t: "map (\<lambda>x. original_mtu (lnk x)) (trace ex_later ?w) = [1500, 1500, 1500]"
    "changes (map (\<lambda>x. original_mtu (lnk x)) (trace (ex_run @ ex_later) ex_fresh_world)) = 1"
    by code_simp+
  from original_mtu_set_once_and_restored[OF r, of ex_later] p r m t show ?thesis by simp
qed

section \<open>Claim C9: what link_save leaves behind when it fails\<close>

text \<open>
  Claim C9, where the code departs from it. When \<open>dhcp_lease_save\<close> fails, link_save
  goes to \<open>finish\<close> past the two \<open>unlink\<close> calls: it returns the error, the
  temporary file stays, holding the header and the STATE line, and the state file is
  what it was before.
\<close>

theorem link_save_lease_failure_keeps_temporary:
  assumes "dhcp_lease (lnk w) = Some lease" and "results w = r0 # ra # rs # rest"
    and "0 \<le> r0" and "0 \<le> ra" and "rs < 0"
  shows "fst (link_save w) = rs \<and>
         fsys (snd (link_save w)) (temp_path_of (cfg w) (state_file (lnk w))) =
           Some (''# This is private data. Do not parse.\<newline>'' @ ''STATE='' @
                 link_state_to_string (state (lnk w)) @ ''\<newline>'') \<and>
         (temp_path_of (cfg w) (state_file (lnk w)) \<noteq> state_file (lnk w) \<longrightarrow>
            fsys (snd (link_save w)) (state_file (lnk w)) = fsys w (state_file (lnk w)))"
  using assms
  by (simp add: link_save_def fopen_temporary_def next_result_def call_sync_def fprintf_def
        link_save_finish_def log_link_def Let_def)

theorem link_save_lease_failure_keeps_temporary_witness:
  "dhcp_lease (lnk ex_saving_world) = Some ex_lease \<and>
   results ex_saving_world = [0, 0, - 5] \<and>
   fst (link_save ex_saving_world) = - 5 \<and>
   fsys (snd (link_save ex_saving_world)) ''/run/systemd/network/links/7.tmp'' =
     Some ''# This is private data. Do not parse.\<newline>STATE=configured\<newline>'' \<and>
   fsys (snd (link_save ex_saving_world)) ''/run/systemd/network/links/7'' =
     Some ''STATE=configuring\<newline>''"
  using link_save_lease_failure_keeps_temporary[of ex_saving_world ex_lease 0 0 "- 5" "[]"]
  by (simp add: ex_saving_world_def ex_world_def ex_link_def ex_params_def
        link_state_to_string_def)

end
